theory Spec2Isabelle
  imports Main "HOL-Library.Word"
begin

section \<open>Values crossing the JNI and HAL boundaries\<close>

text \<open>
  The two translation units \<^verbatim>\<open>com_android_bluetooth_avrcp_controller.cpp\<close> and
  \<^verbatim>\<open>com_android_bluetooth_btservice_vendor.cpp\<close> are modelled as functions over their
  file-level statics. Machine integers are words: a cast between a signed and an unsigned
  type of the same width keeps the bits, so it is the identity on the word; Java reads a
  \<^verbatim>\<open>jbyte\<close> or \<^verbatim>\<open>jint\<close> through \<open>sint\<close>, the HAL reads a
  \<^verbatim>\<open>uint8_t\<close> through \<open>unat\<close>.
\<close>

type_synonym jbyte = "8 word"
type_synonym jint = "32 word"
type_synonym uint8_t = "8 word"
type_synonym uint16_t = "16 word"
type_synonym uint32_t = "32 word"

text \<open>A \<^verbatim>\<open>RawAddress*\<close> is the sequence of bytes it points to.\<close>

type_synonym RawAddress = "uint8_t list"

text \<open>Java arrays handed to a native method: their element lists.\<close>

type_synonym jbyteArray = "jbyte list"
type_synonym jintArray = "jint list"

text \<open>References: an interface vtable pointer, a Java object reference, a class by name.\<close>

type_synonym hal_ptr = nat
type_synonym jobject = nat
type_synonym jclass = string

text \<open>
  \<^verbatim>\<open>bt_status_t\<close> is the status enumeration of the HAL headers; the code only compares it
  with \<^verbatim>\<open>BT_STATUS_SUCCESS\<close>, the enumerator 0.
\<close>

type_synonym bt_status_t = int

definition BT_STATUS_SUCCESS :: bt_status_t where
  "BT_STATUS_SUCCESS = 0"

datatype profile_id =
    BT_PROFILE_AV_RC_CTRL_ID
  | BT_PROFILE_AV_RC_VENDOR_CTRL_ID
  | BT_PROFILE_VENDOR_ID

text \<open>
  Every function pointer of the three HAL interfaces that the bindings call, with the
  arguments as the binding passes them (after the casts written in the source).
\<close>

datatype hal_call =
    HAL_init
  | HAL_cleanup
  | HAL_send_pass_through_cmd RawAddress uint8_t uint8_t
  | HAL_send_group_navigation_cmd RawAddress uint8_t uint8_t
  | HAL_set_player_app_setting_cmd RawAddress uint8_t "uint8_t list" "uint8_t list"
  | HAL_set_volume_rsp RawAddress uint8_t uint8_t
  | HAL_register_abs_vol_rsp RawAddress jbyte uint8_t uint8_t
  | HAL_get_playback_state_cmd RawAddress
  | HAL_get_now_playing_list_cmd RawAddress jint jint
  | HAL_get_folder_list_cmd RawAddress jint jint
  | HAL_get_player_list_cmd RawAddress jint jint
  | HAL_change_folder_path_cmd RawAddress uint16_t uint8_t "uint8_t list"
  | HAL_set_browsed_player_cmd RawAddress uint16_t
  | HAL_set_addressed_player_cmd RawAddress uint16_t
  | HAL_play_item_cmd RawAddress uint8_t "uint8_t list" uint16_t
  | HAL_init_vendor
  | HAL_cleanup_vendor
  | HAL_get_media_element_attributes_vendor RawAddress jbyte "uint32_t list option"
  | HAL_get_element_attributes_cmd RawAddress jbyte "uint32_t list option"
  | HAL_get_folder_items_vendor_cmd RawAddress jbyte jint jint jbyte "uint32_t list option"
  | HAL_search_cmd RawAddress uint16_t uint16_t "uint8_t list option"
  | HAL_get_search_list_cmd RawAddress jint jint
  | HAL_add_to_now_playing_cmd RawAddress uint8_t "uint8_t list" uint16_t
  | HAL_get_item_attr_cmd RawAddress uint8_t "uint8_t list" uint16_t jbyte "uint32_t list option"
  | HAL_get_num_of_items_cmd RawAddress uint8_t
  | HAL_fetch_player_app_setting RawAddress
  | HAL_request_continuing_response_cmd RawAddress uint8_t
  | HAL_abort_continuing_response_cmd RawAddress uint8_t
  | HAL_disconnect RawAddress
  | HAL_vendor_init
  | HAL_vendor_cleanup
  | HAL_bredrcleanup
  | HAL_set_wifi_state bool
  | HAL_get_profile_info jint jint
  | HAL_get_link_key RawAddress

text \<open>
  Values passed to a Java method. A string is the byte sequence \<^verbatim>\<open>NewStringUTF\<close> was
  given (up to the terminating NUL); an object array carries its element class; an object
  carries its class and a reference.
\<close>

datatype jvalue =
    JNull
  | JBoolean bool
  | JByte jbyte
  | JInt jint
  | JString "uint8_t list"
  | JByteArray "jbyte list"
  | JIntArray "jint list"
  | JObject jclass jobject
  | JObjectArray "jclass option" "jvalue list"

text \<open>
  What a run leaves behind, in order: HAL calls, Java method calls (by the name the method
  id was bound to in \<^verbatim>\<open>classInitNative\<close>), \<^verbatim>\<open>jniThrowIOException(env, EINVAL)\<close>
  and \<^verbatim>\<open>ALOGE\<close> lines (their format string). Informational logging
  (\<^verbatim>\<open>ALOGI\<close>, \<^verbatim>\<open>ALOGV\<close>, \<^verbatim>\<open>ALOGW\<close>) is not recorded.
\<close>

datatype event =
    Hal hal_call
  | Java string "jvalue list"
  | JniThrowIOException_EINVAL
  | ALOGE string

fun hal_calls :: "event list \<Rightarrow> hal_call list" where
  "hal_calls [] = []"
| "hal_calls (Hal c # es) = c # hal_calls es"
| "hal_calls (e # es) = hal_calls es"

fun java_calls :: "event list \<Rightarrow> (string \<times> jvalue list) list" where
  "java_calls [] = []"
| "java_calls (Java m args # es) = (m, args) # java_calls es"
| "java_calls (e # es) = java_calls es"

fun aloge_lines :: "event list \<Rightarrow> string list" where
  "aloge_lines [] = []"
| "aloge_lines (ALOGE m # es) = m # aloge_lines es"
| "aloge_lines (e # es) = aloge_lines es"

section \<open>The environment: what the HAL and the JVM answer\<close>

text \<open>
  The HAL is external: its answers are parameters. \<open>BTRC_MAX_ELEM_ATTR_SIZE\<close> is a
  constant of \<^verbatim>\<open>hardware/bt_rc.h\<close>, which is not part of the sources, so it is a
  parameter as well.
\<close>

record hal_env =
  getBluetoothInterface :: bool
  get_profile_interface :: "profile_id \<Rightarrow> hal_ptr option"
  init_status :: bt_status_t
  init_vendor_status :: bt_status_t
  vendor_init_status :: bt_status_t
  cmd_status :: "hal_call \<Rightarrow> bt_status_t"
  get_profile_info_result :: bool
  BTRC_MAX_ELEM_ATTR_SIZE :: int

text \<open>
  The JVM is external too. Each binding call that can return a null pointer is identified
  by its place in the source (and the loop indices there), and the environment says whether
  it succeeds.
\<close>

datatype pin_site =
    Pin_address
  | Pin_uid
  | Pin_attrib_ids
  | Pin_attrib_val
  | Pin_attrIds
  | Pin_pattern

datatype alloc_site =
    Find_class string
  | Global_ref string
  | Alloc_addr
  | Alloc_playerattribs
  | Alloc_attribIds
  | Alloc_stringArray
  | Alloc_str nat
  | Alloc_itemArray
  | Alloc_name nat
  | Alloc_uidByteArray nat
  | Alloc_attrIdArray nat
  | Alloc_attrValArray nat
  | Alloc_attrValStr nat nat
  | Alloc_featureBitArray nat
  | Alloc_linkkey

record jni_env =
  valid :: bool
  alloc_ok :: "alloc_site \<Rightarrow> bool"
  pin_ok :: "pin_site \<Rightarrow> bool"
  ctor_result :: "nat \<Rightarrow> jobject option"

definition GetByteArrayElements :: "jni_env \<Rightarrow> pin_site \<Rightarrow> jbyteArray \<Rightarrow> jbyte list option" where
  "GetByteArrayElements env site arr = (if pin_ok env site then Some arr else None)"

definition GetIntArrayElements :: "jni_env \<Rightarrow> pin_site \<Rightarrow> jintArray \<Rightarrow> jint list option" where
  "GetIntArrayElements env site arr = (if pin_ok env site then Some arr else None)"

definition GetStringUTFChars :: "jni_env \<Rightarrow> pin_site \<Rightarrow> uint8_t list \<Rightarrow> uint8_t list option" where
  "GetStringUTFChars env site str = (if pin_ok env site then Some str else None)"

definition FindClass :: "jni_env \<Rightarrow> string \<Rightarrow> jclass option" where
  "FindClass env name = (if alloc_ok env (Find_class name) then Some name else None)"

definition NewGlobalRef :: "jni_env \<Rightarrow> string \<Rightarrow> 'a option \<Rightarrow> 'a option" where
  "NewGlobalRef env what ref =
     (case ref of None \<Rightarrow> None
      | Some r \<Rightarrow> if alloc_ok env (Global_ref what) then Some r else None)"

section \<open>The statics of the two translation units\<close>

record module_state =
  sBluetoothAvrcpInterface :: "hal_ptr option"
  sBluetoothAvrcpVendorInterface :: "hal_ptr option"
  sCallbacksObj :: "jobject option"
  class_MediaBrowser_MediaItem :: "jclass option"
  class_AvrcpPlayer :: "jclass option"
  sBluetoothVendorInterface :: "hal_ptr option"
  mCallbacksObj :: "jobject option"

text \<open>All of them are initialised to \<^verbatim>\<open>NULL\<close> (the class references as zeroed statics).\<close>

definition initial_state :: module_state where
  "initial_state =
     \<lparr> sBluetoothAvrcpInterface = None, sBluetoothAvrcpVendorInterface = None,
       sCallbacksObj = None, class_MediaBrowser_MediaItem = None, class_AvrcpPlayer = None,
       sBluetoothVendorInterface = None, mCallbacksObj = None \<rparr>"

text \<open>
  How a native method ends: it returns (a \<^verbatim>\<open>jboolean\<close> or nothing), or the process
  dies: a call through a null interface pointer, a read past the end of a native array
  (undefined behaviour), an array \<^verbatim>\<open>new\<close> of negative size, a JNI call that the
  runtime aborts on (\<^verbatim>\<open>NewObjectArray\<close> with a null element class).
\<close>

datatype ret = RVoid | RBool bool

datatype outcome = Returned ret | NullDeref | OutOfBounds | BadArrayLength | JniAbort

type_synonym result = "outcome \<times> event list \<times> module_state"

definition outcome_of :: "result \<Rightarrow> outcome" where
  "outcome_of r = fst r"

definition trace_of :: "result \<Rightarrow> event list" where
  "trace_of r = fst (snd r)"

definition state_of :: "result \<Rightarrow> module_state" where
  "state_of r = snd (snd r)"

text \<open>
  The tail shared by the commands: the HAL call, then an \<^verbatim>\<open>ALOGE\<close> line when the
  status is not \<^verbatim>\<open>BT_STATUS_SUCCESS\<close>.
\<close>

definition hal_cmd :: "hal_env \<Rightarrow> hal_call \<Rightarrow> string \<Rightarrow> event list" where
  "hal_cmd hal call msg =
     Hal call # (if cmd_status hal call \<noteq> BT_STATUS_SUCCESS then [ALOGE msg] else [])"

section \<open>AVRCP controller: \<^verbatim>\<open>initNative\<close> and \<^verbatim>\<open>cleanupNative\<close>\<close>

text \<open>
  \<^verbatim>\<open>classInitNative\<close> only looks up method ids; Java methods are identified here by the
  names it binds, so it changes nothing that is modelled.
\<close>

definition classInitNative :: "module_state \<Rightarrow> result" where
  "classInitNative s = (Returned RVoid, [], s)"

definition initNative :: "jni_env \<Rightarrow> hal_env \<Rightarrow> jobject \<Rightarrow> module_state \<Rightarrow> result" where
  "initNative env hal object s =
     (let tmpMediaItem = FindClass env ''android/media/browse/MediaBrowser$MediaItem'';
          tmpBtPlayer = FindClass env ''com/android/bluetooth/avrcpcontroller/AvrcpPlayer'';
          s0 = s\<lparr> class_MediaBrowser_MediaItem := NewGlobalRef env ''MediaItem'' tmpMediaItem,
                 class_AvrcpPlayer := NewGlobalRef env ''AvrcpPlayer'' tmpBtPlayer \<rparr>
      in if \<not> getBluetoothInterface hal
         then (Returned RVoid, [ALOGE ''Bluetooth module is not loaded''], s0)
         else
           let t1 = (if sBluetoothAvrcpVendorInterface s0 \<noteq> None then [Hal HAL_cleanup_vendor] else []);
               s1 = (if sBluetoothAvrcpVendorInterface s0 \<noteq> None
                     then s0\<lparr> sBluetoothAvrcpVendorInterface := None \<rparr> else s0);
               t2 = (if sBluetoothAvrcpInterface s1 \<noteq> None then [Hal HAL_cleanup] else []);
               s2 = (if sBluetoothAvrcpInterface s1 \<noteq> None
                     then s1\<lparr> sBluetoothAvrcpInterface := None \<rparr> else s1);
               s3 = (if sCallbacksObj s2 \<noteq> None then s2\<lparr> sCallbacksObj := None \<rparr> else s2);
               s4 = s3\<lparr> sBluetoothAvrcpInterface :=
                          get_profile_interface hal BT_PROFILE_AV_RC_CTRL_ID \<rparr>
           in if sBluetoothAvrcpInterface s4 = None
              then (Returned RVoid,
                    t1 @ t2 @ [ALOGE ''Failed to get Bluetooth Avrcp Controller Interface''], s4)
              else if init_status hal \<noteq> BT_STATUS_SUCCESS
              then (Returned RVoid,
                    t1 @ t2 @ [Hal HAL_init,
                               ALOGE ''Failed to initialize Bluetooth Avrcp Controller, status: %d''],
                    s4\<lparr> sBluetoothAvrcpInterface := None \<rparr>)
              else
                let s5 = s4\<lparr> sBluetoothAvrcpVendorInterface :=
                             get_profile_interface hal BT_PROFILE_AV_RC_VENDOR_CTRL_ID \<rparr>
                in if sBluetoothAvrcpVendorInterface s5 = None
                   then (Returned RVoid,
                         t1 @ t2 @ [Hal HAL_init,
                                    ALOGE ''Failed to get Bluetooth Avrcp Vendor Controller Interface'',
                                    Hal HAL_cleanup],
                         s5\<lparr> sBluetoothAvrcpInterface := None \<rparr>)
                   else if init_vendor_status hal \<noteq> BT_STATUS_SUCCESS
                   then (Returned RVoid,
                         t1 @ t2 @ [Hal HAL_init, Hal HAL_init_vendor,
                                    ALOGE ''Failed to initialize Bluetooth Avrcp Vendor Controller, status: %d'',
                                    Hal HAL_cleanup],
                         s5\<lparr> sBluetoothAvrcpVendorInterface := None,
                             sBluetoothAvrcpInterface := None \<rparr>)
                   else (Returned RVoid, t1 @ t2 @ [Hal HAL_init, Hal HAL_init_vendor],
                         s5\<lparr> sCallbacksObj := NewGlobalRef env ''object'' (Some object) \<rparr>))"

definition cleanupNative :: "hal_env \<Rightarrow> module_state \<Rightarrow> result" where
  "cleanupNative hal s =
     (if \<not> getBluetoothInterface hal
      then (Returned RVoid, [ALOGE ''Bluetooth module is not loaded''], s)
      else
        let t1 = (if sBluetoothAvrcpVendorInterface s \<noteq> None then [Hal HAL_cleanup_vendor] else []);
            s1 = (if sBluetoothAvrcpVendorInterface s \<noteq> None
                  then s\<lparr> sBluetoothAvrcpVendorInterface := None \<rparr> else s);
            t2 = (if sBluetoothAvrcpInterface s1 \<noteq> None then [Hal HAL_cleanup] else []);
            s2 = (if sBluetoothAvrcpInterface s1 \<noteq> None
                  then s1\<lparr> sBluetoothAvrcpInterface := None \<rparr> else s1);
            s3 = (if sCallbacksObj s2 \<noteq> None then s2\<lparr> sCallbacksObj := None \<rparr> else s2)
        in (Returned RVoid, t1 @ t2, s3))"

section \<open>Vendor binding: \<^verbatim>\<open>initNative\<close> and \<^verbatim>\<open>cleanupNative\<close>\<close>

definition vendor_initNative :: "jni_env \<Rightarrow> hal_env \<Rightarrow> jobject \<Rightarrow> module_state \<Rightarrow> result" where
  "vendor_initNative env hal object s =
     (if \<not> getBluetoothInterface hal
      then (Returned RVoid, [ALOGE ''Bluetooth module is not loaded''], s)
      else
        let s1 = (if mCallbacksObj s \<noteq> None then s\<lparr> mCallbacksObj := None \<rparr> else s);
            s2 = s1\<lparr> sBluetoothVendorInterface := get_profile_interface hal BT_PROFILE_VENDOR_ID \<rparr>
        in if sBluetoothVendorInterface s2 = None
           then (Returned RVoid, [ALOGE ''Failed to get Bluetooth Vendor Interface''], s2)
           else if vendor_init_status hal \<noteq> BT_STATUS_SUCCESS
           then (Returned RVoid,
                 [Hal HAL_vendor_init, ALOGE ''Failed to initialize Bluetooth Vendor, status: %d''],
                 s2\<lparr> sBluetoothVendorInterface := None \<rparr>)
           else (Returned RVoid, [Hal HAL_vendor_init],
                 s2\<lparr> mCallbacksObj := NewGlobalRef env ''object'' (Some object) \<rparr>))"

definition vendor_cleanupNative :: "hal_env \<Rightarrow> module_state \<Rightarrow> result" where
  "vendor_cleanupNative hal s =
     (if \<not> getBluetoothInterface hal
      then (Returned RVoid, [ALOGE ''Bluetooth module is not loaded''], s)
      else
        let t1 = (if sBluetoothVendorInterface s \<noteq> None then [Hal HAL_vendor_cleanup] else []);
            s1 = (if sBluetoothVendorInterface s \<noteq> None
                  then s\<lparr> sBluetoothVendorInterface := None \<rparr> else s);
            s2 = (if mCallbacksObj s1 \<noteq> None then s1\<lparr> mCallbacksObj := None \<rparr> else s1)
        in (Returned RVoid, t1, s2))"

section \<open>AVRCP controller: outbound commands\<close>

text \<open>
  Each command tests an interface pointer, pins its array arguments (a failed pin throws
  \<^verbatim>\<open>IOException\<close> and returns), makes one HAL call and logs a status that is not
  \<^verbatim>\<open>BT_STATUS_SUCCESS\<close>. None assigns to a static, so each returns the state it was given.
\<close>

definition sendPassThroughCommandNative ::
  "jni_env \<Rightarrow> hal_env \<Rightarrow> jbyteArray \<Rightarrow> jint \<Rightarrow> jint \<Rightarrow> module_state \<Rightarrow> result" where
  "sendPassThroughCommandNative env hal address key_code key_state s =
     (case sBluetoothAvrcpInterface s of
        None \<Rightarrow> (Returned (RBool False), [], s)
      | Some _ \<Rightarrow>
          (case GetByteArrayElements env Pin_address address of
            None \<Rightarrow> (Returned (RBool False), [JniThrowIOException_EINVAL], s)
          | Some addr \<Rightarrow>
              let call = HAL_send_pass_through_cmd addr (ucast key_code) (ucast key_state);
                  status = cmd_status hal call
              in (Returned (RBool (status = BT_STATUS_SUCCESS)),
                  hal_cmd hal call ''Failed sending passthru command, status: %d'', s)))"

definition sendGroupNavigationCommandNative ::
  "jni_env \<Rightarrow> hal_env \<Rightarrow> jbyteArray \<Rightarrow> jint \<Rightarrow> jint \<Rightarrow> module_state \<Rightarrow> result" where
  "sendGroupNavigationCommandNative env hal address key_code key_state s =
     (case sBluetoothAvrcpInterface s of
        None \<Rightarrow> (Returned (RBool False), [], s)
      | Some _ \<Rightarrow>
          (case GetByteArrayElements env Pin_address address of
            None \<Rightarrow> (Returned (RBool False), [JniThrowIOException_EINVAL], s)
          | Some addr \<Rightarrow>
              let call = HAL_send_group_navigation_cmd addr (ucast key_code) (ucast key_state);
                  status = cmd_status hal call
              in (Returned (RBool (status = BT_STATUS_SUCCESS)),
                  hal_cmd hal call ''Failed sending Grp Navigation command, status: %d'', s)))"

text \<open>
  \<^verbatim>\<open>num_attrib\<close> is a signed byte: \<^verbatim>\<open>new uint8_t[num_attrib]\<close> with a negative size
  does not return, and the copy loop reads \<^verbatim>\<open>attr[i]\<close> and \<^verbatim>\<open>attr_val[i]\<close> for
  every \<open>i < num_attrib\<close>, past the pinned arrays when they are shorter.
\<close>

definition setPlayerApplicationSettingValuesNative ::
  "jni_env \<Rightarrow> hal_env \<Rightarrow> jbyteArray \<Rightarrow> jbyte \<Rightarrow> jbyteArray \<Rightarrow> jbyteArray \<Rightarrow> module_state \<Rightarrow> result" where
  "setPlayerApplicationSettingValuesNative env hal address num_attrib attrib_ids attrib_val s =
     (case sBluetoothAvrcpInterface s of
        None \<Rightarrow> (Returned RVoid, [], s)
      | Some _ \<Rightarrow>
          (case GetByteArrayElements env Pin_address address of
            None \<Rightarrow> (Returned RVoid, [JniThrowIOException_EINVAL], s)
          | Some addr \<Rightarrow>
              if sint num_attrib < 0 then (BadArrayLength, [], s)
              else
                (case (GetByteArrayElements env Pin_attrib_ids attrib_ids,
                       GetByteArrayElements env Pin_attrib_val attrib_val) of
                  (Some attr, Some attr_val) \<Rightarrow>
                    if length attr < unat num_attrib \<or> length attr_val < unat num_attrib
                    then (OutOfBounds, [], s)
                    else
                      let pAttrs = map (\<lambda>i. attr ! i) [0 ..< unat num_attrib];
                          pAttrsVal = map (\<lambda>i. attr_val ! i) [0 ..< unat num_attrib]
                      in (Returned RVoid,
                          hal_cmd hal (HAL_set_player_app_setting_cmd addr num_attrib pAttrs pAttrsVal)
                            ''Failed sending setPlAppSettValNative command, status: %d'', s)
                | _ \<Rightarrow> (Returned RVoid, [JniThrowIOException_EINVAL], s))))"

definition sendAbsVolRspNative ::
  "jni_env \<Rightarrow> hal_env \<Rightarrow> jbyteArray \<Rightarrow> jint \<Rightarrow> jint \<Rightarrow> module_state \<Rightarrow> result" where
  "sendAbsVolRspNative env hal address abs_vol label s =
     (case sBluetoothAvrcpInterface s of
        None \<Rightarrow> (Returned RVoid, [], s)
      | Some _ \<Rightarrow>
          (case GetByteArrayElements env Pin_address address of
            None \<Rightarrow> (Returned RVoid, [JniThrowIOException_EINVAL], s)
          | Some addr \<Rightarrow>
              (Returned RVoid, hal_cmd hal (HAL_set_volume_rsp addr (ucast abs_vol) (ucast label))
                 ''Failed sending sendAbsVolRspNative command, status: %d'', s)))"

definition sendRegisterAbsVolRspNative ::
  "jni_env \<Rightarrow> hal_env \<Rightarrow> jbyteArray \<Rightarrow> jbyte \<Rightarrow> jint \<Rightarrow> jint \<Rightarrow> module_state \<Rightarrow> result" where
  "sendRegisterAbsVolRspNative env hal address rsp_type abs_vol label s =
     (case sBluetoothAvrcpInterface s of
        None \<Rightarrow> (Returned RVoid, [], s)
      | Some _ \<Rightarrow>
          (case GetByteArrayElements env Pin_address address of
            None \<Rightarrow> (Returned RVoid, [JniThrowIOException_EINVAL], s)
          | Some addr \<Rightarrow>
              (Returned RVoid, hal_cmd hal (HAL_register_abs_vol_rsp addr rsp_type (ucast abs_vol) (ucast label))
                 ''Failed sending sendRegisterAbsVolRspNative command, status: %d'', s)))"

definition getPlaybackStateNative ::
  "jni_env \<Rightarrow> hal_env \<Rightarrow> jbyteArray \<Rightarrow> module_state \<Rightarrow> result" where
  "getPlaybackStateNative env hal address s =
     (case sBluetoothAvrcpInterface s of
        None \<Rightarrow> (Returned RVoid, [], s)
      | Some _ \<Rightarrow>
          (case GetByteArrayElements env Pin_address address of
            None \<Rightarrow> (Returned RVoid, [JniThrowIOException_EINVAL], s)
          | Some addr \<Rightarrow>
              (Returned RVoid, hal_cmd hal (HAL_get_playback_state_cmd addr)
                 ''Failed sending getPlaybackStateNative command, status: %d'', s)))"

definition getNowPlayingListNative ::
  "jni_env \<Rightarrow> hal_env \<Rightarrow> jbyteArray \<Rightarrow> jint \<Rightarrow> jint \<Rightarrow> module_state \<Rightarrow> result" where
  "getNowPlayingListNative env hal address start end' s =
     (case sBluetoothAvrcpInterface s of
        None \<Rightarrow> (Returned RVoid, [], s)
      | Some _ \<Rightarrow>
          (case GetByteArrayElements env Pin_address address of
            None \<Rightarrow> (Returned RVoid, [JniThrowIOException_EINVAL], s)
          | Some addr \<Rightarrow>
              (Returned RVoid, hal_cmd hal (HAL_get_now_playing_list_cmd addr start end')
                 ''Failed sending getNowPlayingListNative command, status: %d'', s)))"

definition getFolderListNative ::
  "jni_env \<Rightarrow> hal_env \<Rightarrow> jbyteArray \<Rightarrow> jint \<Rightarrow> jint \<Rightarrow> module_state \<Rightarrow> result" where
  "getFolderListNative env hal address start end' s =
     (case sBluetoothAvrcpInterface s of
        None \<Rightarrow> (Returned RVoid, [], s)
      | Some _ \<Rightarrow>
          (case GetByteArrayElements env Pin_address address of
            None \<Rightarrow> (Returned RVoid, [JniThrowIOException_EINVAL], s)
          | Some addr \<Rightarrow>
              (Returned RVoid, hal_cmd hal (HAL_get_folder_list_cmd addr start end')
                 ''Failed sending getFolderListNative command, status: %d'', s)))"

definition getPlayerListNative ::
  "jni_env \<Rightarrow> hal_env \<Rightarrow> jbyteArray \<Rightarrow> jint \<Rightarrow> jint \<Rightarrow> module_state \<Rightarrow> result" where
  "getPlayerListNative env hal address start end' s =
     (case sBluetoothAvrcpInterface s of
        None \<Rightarrow> (Returned RVoid, [], s)
      | Some _ \<Rightarrow>
          (case GetByteArrayElements env Pin_address address of
            None \<Rightarrow> (Returned RVoid, [JniThrowIOException_EINVAL], s)
          | Some addr \<Rightarrow>
              (Returned RVoid, hal_cmd hal (HAL_get_player_list_cmd addr start end')
                 ''Failed sending getPlayerListNative command, status: %d'', s)))"

definition changeFolderPathNative ::
  "jni_env \<Rightarrow> hal_env \<Rightarrow> jbyteArray \<Rightarrow> jint \<Rightarrow> jbyte \<Rightarrow> jbyteArray \<Rightarrow> module_state \<Rightarrow> result" where
  "changeFolderPathNative env hal address uidCounter direction uidarr s =
     (case sBluetoothAvrcpInterface s of
        None \<Rightarrow> (Returned RVoid, [], s)
      | Some _ \<Rightarrow>
          (case GetByteArrayElements env Pin_address address of
            None \<Rightarrow> (Returned RVoid, [JniThrowIOException_EINVAL], s)
          | Some addr \<Rightarrow>
              (case GetByteArrayElements env Pin_uid uidarr of
                None \<Rightarrow> (Returned RVoid, [JniThrowIOException_EINVAL], s)
              | Some uid \<Rightarrow>
                  (Returned RVoid, hal_cmd hal (HAL_change_folder_path_cmd addr (ucast uidCounter) direction uid)
                     ''Failed sending changeFolderPathNative command, status: %d'', s))))"

definition setBrowsedPlayerNative ::
  "jni_env \<Rightarrow> hal_env \<Rightarrow> jbyteArray \<Rightarrow> jint \<Rightarrow> module_state \<Rightarrow> result" where
  "setBrowsedPlayerNative env hal address id' s =
     (case sBluetoothAvrcpInterface s of
        None \<Rightarrow> (Returned RVoid, [], s)
      | Some _ \<Rightarrow>
          (case GetByteArrayElements env Pin_address address of
            None \<Rightarrow> (Returned RVoid, [JniThrowIOException_EINVAL], s)
          | Some addr \<Rightarrow>
              (Returned RVoid, hal_cmd hal (HAL_set_browsed_player_cmd addr (ucast id'))
                 ''Failed sending setBrowsedPlayerNative command, status: %d'', s)))"

definition setAddressedPlayerNative ::
  "jni_env \<Rightarrow> hal_env \<Rightarrow> jbyteArray \<Rightarrow> jint \<Rightarrow> module_state \<Rightarrow> result" where
  "setAddressedPlayerNative env hal address id' s =
     (case sBluetoothAvrcpInterface s of
        None \<Rightarrow> (Returned RVoid, [], s)
      | Some _ \<Rightarrow>
          (case GetByteArrayElements env Pin_address address of
            None \<Rightarrow> (Returned RVoid, [JniThrowIOException_EINVAL], s)
          | Some addr \<Rightarrow>
              (Returned RVoid, hal_cmd hal (HAL_set_addressed_player_cmd addr (ucast id'))
                 ''Failed sending setAddressedPlayerNative command, status: %d'', s)))"

definition playItemNative ::
  "jni_env \<Rightarrow> hal_env \<Rightarrow> jbyteArray \<Rightarrow> jbyte \<Rightarrow> jbyteArray \<Rightarrow> jint \<Rightarrow> module_state \<Rightarrow> result" where
  "playItemNative env hal address scope uidArr uidCounter s =
     (case sBluetoothAvrcpInterface s of
        None \<Rightarrow> (Returned RVoid, [], s)
      | Some _ \<Rightarrow>
          (case GetByteArrayElements env Pin_address address of
            None \<Rightarrow> (Returned RVoid, [JniThrowIOException_EINVAL], s)
          | Some addr \<Rightarrow>
              (case GetByteArrayElements env Pin_uid uidArr of
                None \<Rightarrow> (Returned RVoid, [JniThrowIOException_EINVAL], s)
              | Some uid \<Rightarrow>
                  (Returned RVoid, hal_cmd hal (HAL_play_item_cmd addr scope uid (ucast uidCounter))
                     ''Failed sending playItemNative command, status: %d'', s))))"

text \<open>
  The attribute-list commands share one block: \<^verbatim>\<open>attr\<close> stays \<^verbatim>\<open>NULL\<close> unless
  \<^verbatim>\<open>numAttr > 0\<close> and \<^verbatim>\<open>attrIds\<close> is not the Java null; a failed pin is the outer
  \<open>None\<close>.
\<close>

definition pin_attr :: "jni_env \<Rightarrow> jbyte \<Rightarrow> jintArray option \<Rightarrow> uint32_t list option option" where
  "pin_attr env numAttr attrIds =
     (case attrIds of
        None \<Rightarrow> Some None
      | Some ids \<Rightarrow>
          if 0 < sint numAttr
          then (case GetIntArrayElements env Pin_attrIds ids of
                  None \<Rightarrow> None
                | Some attr \<Rightarrow> Some (Some attr))
          else Some None)"

definition getItemElementAttributesNative ::
  "jni_env \<Rightarrow> hal_env \<Rightarrow> jbyteArray \<Rightarrow> jbyte \<Rightarrow> jintArray option \<Rightarrow> module_state \<Rightarrow> result" where
  "getItemElementAttributesNative env hal address numAttr attrIds s =
     (case sBluetoothAvrcpVendorInterface s of
        None \<Rightarrow> (Returned RVoid, [], s)
      | Some _ \<Rightarrow>
          (case GetByteArrayElements env Pin_address address of
            None \<Rightarrow> (Returned RVoid, [JniThrowIOException_EINVAL], s)
          | Some addr \<Rightarrow>
              if sint numAttr > BTRC_MAX_ELEM_ATTR_SIZE hal
              then (Returned RVoid,
                    [ALOGE ''getItemElementAttributesNative: number of attributes exceed maximum''], s)
              else
                (case pin_attr env numAttr attrIds of
                  None \<Rightarrow> (Returned RVoid, [JniThrowIOException_EINVAL], s)
                | Some attr \<Rightarrow>
                    (Returned RVoid,
                     hal_cmd hal (HAL_get_media_element_attributes_vendor addr numAttr attr)
                       ''Failed sending getItemElementAttributesNative command, status: %d'', s))))"

definition getElementAttributesNative ::
  "jni_env \<Rightarrow> hal_env \<Rightarrow> jbyteArray \<Rightarrow> jbyte \<Rightarrow> jintArray option \<Rightarrow> module_state \<Rightarrow> result" where
  "getElementAttributesNative env hal address numAttr attrIds s =
     (case sBluetoothAvrcpVendorInterface s of
        None \<Rightarrow> (Returned RVoid, [], s)
      | Some _ \<Rightarrow>
          (case GetByteArrayElements env Pin_address address of
            None \<Rightarrow> (Returned RVoid, [JniThrowIOException_EINVAL], s)
          | Some addr \<Rightarrow>
              if sint numAttr > BTRC_MAX_ELEM_ATTR_SIZE hal
              then (Returned RVoid,
                    [ALOGE ''getElementAttributesNative: number of attributes exceed maximum''], s)
              else
                (case pin_attr env numAttr attrIds of
                  None \<Rightarrow> (Returned RVoid, [JniThrowIOException_EINVAL], s)
                | Some attr \<Rightarrow>
                    (Returned RVoid,
                     hal_cmd hal (HAL_get_element_attributes_cmd addr numAttr attr)
                       ''Failed sending getElementAttributesNative command, status: %d'', s))))"

definition getFolderItemsNative ::
  "jni_env \<Rightarrow> hal_env \<Rightarrow> jbyteArray \<Rightarrow> jbyte \<Rightarrow> jint \<Rightarrow> jint \<Rightarrow> jbyte \<Rightarrow> jintArray option \<Rightarrow>
   module_state \<Rightarrow> result" where
  "getFolderItemsNative env hal address scope start end' numAttr attrIds s =
     (case sBluetoothAvrcpVendorInterface s of
        None \<Rightarrow> (Returned RVoid, [], s)
      | Some _ \<Rightarrow>
          (case GetByteArrayElements env Pin_address address of
            None \<Rightarrow> (Returned RVoid, [JniThrowIOException_EINVAL], s)
          | Some addr \<Rightarrow>
              if sint numAttr > BTRC_MAX_ELEM_ATTR_SIZE hal
              then (Returned RVoid,
                    [ALOGE ''getFolderItemsNative: number of attributes exceed maximum''], s)
              else
                (case pin_attr env numAttr attrIds of
                  None \<Rightarrow> (Returned RVoid, [JniThrowIOException_EINVAL], s)
                | Some attr \<Rightarrow>
                    (Returned RVoid,
                     hal_cmd hal (HAL_get_folder_items_vendor_cmd addr scope start end' numAttr attr)
                       ''Failed sending getFolderItemsNative command, status: %d'', s))))"

text \<open>
  \<^verbatim>\<open>searchNative\<close> pins the pattern with \<^verbatim>\<open>GetStringUTFChars\<close> and passes the result
  to the HAL without testing it.
\<close>

definition searchNative ::
  "jni_env \<Rightarrow> hal_env \<Rightarrow> jbyteArray \<Rightarrow> jint \<Rightarrow> jint \<Rightarrow> uint8_t list \<Rightarrow> module_state \<Rightarrow> result" where
  "searchNative env hal address charset strLen pattern s =
     (case sBluetoothAvrcpVendorInterface s of
        None \<Rightarrow> (Returned RVoid, [], s)
      | Some _ \<Rightarrow>
          (case GetByteArrayElements env Pin_address address of
            None \<Rightarrow> (Returned RVoid, [JniThrowIOException_EINVAL], s)
          | Some addr \<Rightarrow>
              let search_pattern = GetStringUTFChars env Pin_pattern pattern
              in (Returned RVoid,
                  hal_cmd hal (HAL_search_cmd addr (ucast charset) (ucast strLen) search_pattern)
                    ''Failed sending searchNative command, status: %d'', s)))"

definition getSearchListNative ::
  "jni_env \<Rightarrow> hal_env \<Rightarrow> jbyteArray \<Rightarrow> jint \<Rightarrow> jint \<Rightarrow> module_state \<Rightarrow> result" where
  "getSearchListNative env hal address start items s =
     (case sBluetoothAvrcpVendorInterface s of
        None \<Rightarrow> (Returned RVoid, [], s)
      | Some _ \<Rightarrow>
          (case GetByteArrayElements env Pin_address address of
            None \<Rightarrow> (Returned RVoid, [JniThrowIOException_EINVAL], s)
          | Some addr \<Rightarrow>
              (Returned RVoid, hal_cmd hal (HAL_get_search_list_cmd addr start items)
                 ''Failed sending getSearchListNative command, status: %d'', s)))"

definition addToNowPlayingNative ::
  "jni_env \<Rightarrow> hal_env \<Rightarrow> jbyteArray \<Rightarrow> jbyte \<Rightarrow> jbyteArray \<Rightarrow> jint \<Rightarrow> module_state \<Rightarrow> result" where
  "addToNowPlayingNative env hal address scope uidArr uidCounter s =
     (case sBluetoothAvrcpVendorInterface s of
        None \<Rightarrow> (Returned RVoid, [], s)
      | Some _ \<Rightarrow>
          (case GetByteArrayElements env Pin_address address of
            None \<Rightarrow> (Returned RVoid, [JniThrowIOException_EINVAL], s)
          | Some addr \<Rightarrow>
              (case GetByteArrayElements env Pin_uid uidArr of
                None \<Rightarrow> (Returned RVoid, [JniThrowIOException_EINVAL], s)
              | Some uid \<Rightarrow>
                  (Returned RVoid, hal_cmd hal (HAL_add_to_now_playing_cmd addr scope uid (ucast uidCounter))
                     ''Failed sending addToNowPlayingNative command, status: %d'', s))))"

definition getItemAttributesNative ::
  "jni_env \<Rightarrow> hal_env \<Rightarrow> jbyteArray \<Rightarrow> jbyte \<Rightarrow> jbyteArray \<Rightarrow> jint \<Rightarrow> jbyte \<Rightarrow> jintArray option \<Rightarrow>
   module_state \<Rightarrow> result" where
  "getItemAttributesNative env hal address scope uidArr uidCounter numAttr attrIds s =
     (case sBluetoothAvrcpVendorInterface s of
        None \<Rightarrow> (Returned RVoid, [], s)
      | Some _ \<Rightarrow>
          (case GetByteArrayElements env Pin_address address of
            None \<Rightarrow> (Returned RVoid, [JniThrowIOException_EINVAL], s)
          | Some addr \<Rightarrow>
              (case GetByteArrayElements env Pin_uid uidArr of
                None \<Rightarrow> (Returned RVoid, [JniThrowIOException_EINVAL], s)
              | Some uid \<Rightarrow>
                  if sint numAttr > BTRC_MAX_ELEM_ATTR_SIZE hal
                  then (Returned RVoid,
                        [ALOGE ''getItemAttributesNative: number of attributes exceed maximum''], s)
                  else
                    (case pin_attr env numAttr attrIds of
                      None \<Rightarrow> (Returned RVoid, [JniThrowIOException_EINVAL], s)
                    | Some attr \<Rightarrow>
                        (Returned RVoid,
                         hal_cmd hal (HAL_get_item_attr_cmd addr scope uid (ucast uidCounter) numAttr attr)
                           ''Failed sending getItemAttributesNative command, status: %d'', s)))))"

definition getTotalNumOfItemsNative ::
  "jni_env \<Rightarrow> hal_env \<Rightarrow> jbyteArray \<Rightarrow> jbyte \<Rightarrow> module_state \<Rightarrow> result" where
  "getTotalNumOfItemsNative env hal address scope s =
     (case sBluetoothAvrcpVendorInterface s of
        None \<Rightarrow> (Returned RVoid, [], s)
      | Some _ \<Rightarrow>
          (case GetByteArrayElements env Pin_address address of
            None \<Rightarrow> (Returned RVoid, [JniThrowIOException_EINVAL], s)
          | Some addr \<Rightarrow>
              (Returned RVoid, hal_cmd hal (HAL_get_num_of_items_cmd addr scope)
                 ''Failed sending getTotalNumOfItemsNative command, status: %d'', s)))"

text \<open>
  \<^verbatim>\<open>fetchPlayerApplicationSettingNative\<close> tests \<^verbatim>\<open>sBluetoothAvrcpInterface\<close> and then
  calls through \<^verbatim>\<open>sBluetoothAvrcpVendorInterface\<close>: with the first set and the second
  null, the call dereferences a null pointer.
\<close>

definition fetchPlayerApplicationSettingNative ::
  "jni_env \<Rightarrow> hal_env \<Rightarrow> jbyteArray \<Rightarrow> module_state \<Rightarrow> result" where
  "fetchPlayerApplicationSettingNative env hal address s =
     (case sBluetoothAvrcpInterface s of
        None \<Rightarrow> (Returned RVoid, [], s)
      | Some _ \<Rightarrow>
          (case GetByteArrayElements env Pin_address address of
            None \<Rightarrow> (Returned RVoid, [JniThrowIOException_EINVAL], s)
          | Some addr \<Rightarrow>
              (case sBluetoothAvrcpVendorInterface s of
                None \<Rightarrow> (NullDeref, [], s)
              | Some _ \<Rightarrow>
                  (Returned RVoid, hal_cmd hal (HAL_fetch_player_app_setting addr)
                     ''Failed sending fetch_player_app_setting command, status: %d'', s))))"

definition requestContinuingResponseNative ::
  "jni_env \<Rightarrow> hal_env \<Rightarrow> jbyteArray \<Rightarrow> jbyte \<Rightarrow> module_state \<Rightarrow> result" where
  "requestContinuingResponseNative env hal address pduId s =
     (case sBluetoothAvrcpVendorInterface s of
        None \<Rightarrow> (Returned RVoid, [], s)
      | Some _ \<Rightarrow>
          (case GetByteArrayElements env Pin_address address of
            None \<Rightarrow> (Returned RVoid, [JniThrowIOException_EINVAL], s)
          | Some addr \<Rightarrow>
              (Returned RVoid, hal_cmd hal (HAL_request_continuing_response_cmd addr pduId)
                 ''Failed sending requestContinuingResponseNative command, status: %d'', s)))"

definition abortContinuingResponseNative ::
  "jni_env \<Rightarrow> hal_env \<Rightarrow> jbyteArray \<Rightarrow> jbyte \<Rightarrow> module_state \<Rightarrow> result" where
  "abortContinuingResponseNative env hal address pduId s =
     (case sBluetoothAvrcpVendorInterface s of
        None \<Rightarrow> (Returned RVoid, [], s)
      | Some _ \<Rightarrow>
          (case GetByteArrayElements env Pin_address address of
            None \<Rightarrow> (Returned RVoid, [JniThrowIOException_EINVAL], s)
          | Some addr \<Rightarrow>
              (Returned RVoid, hal_cmd hal (HAL_abort_continuing_response_cmd addr pduId)
                 ''Failed sending abortContinuingResponseNative command, status: %d'', s)))"

definition disconnectNative ::
  "jni_env \<Rightarrow> hal_env \<Rightarrow> jbyteArray \<Rightarrow> module_state \<Rightarrow> result" where
  "disconnectNative env hal address s =
     (case sBluetoothAvrcpVendorInterface s of
        None \<Rightarrow> (Returned RVoid, [], s)
      | Some _ \<Rightarrow>
          (case GetByteArrayElements env Pin_address address of
            None \<Rightarrow> (Returned RVoid, [JniThrowIOException_EINVAL], s)
          | Some addr \<Rightarrow>
              (Returned RVoid, hal_cmd hal (HAL_disconnect addr)
                 ''Failed to disconnect, status: %d'', s)))"

section \<open>Vendor binding: outbound commands\<close>

text \<open>These HAL entry points return no status, so nothing is logged after the call.\<close>

definition bredrcleanupNative :: "module_state \<Rightarrow> result" where
  "bredrcleanupNative s =
     (case sBluetoothVendorInterface s of
        None \<Rightarrow> (Returned (RBool False), [], s)
      | Some _ \<Rightarrow> (Returned (RBool True), [Hal HAL_bredrcleanup], s))"

definition setWifiStateNative :: "bool \<Rightarrow> module_state \<Rightarrow> result" where
  "setWifiStateNative status s =
     (case sBluetoothVendorInterface s of
        None \<Rightarrow> (Returned (RBool False), [], s)
      | Some _ \<Rightarrow> (Returned (RBool True), [Hal (HAL_set_wifi_state status)], s))"

definition getProfileInfoNative :: "hal_env \<Rightarrow> jint \<Rightarrow> jint \<Rightarrow> module_state \<Rightarrow> result" where
  "getProfileInfoNative hal profile_id profile_info s =
     (case sBluetoothVendorInterface s of
        None \<Rightarrow> (Returned (RBool False), [], s)
      | Some _ \<Rightarrow>
          (Returned (RBool (get_profile_info_result hal)),
           [Hal (HAL_get_profile_info profile_id profile_info)], s))"

definition getLinkKeyNative :: "jni_env \<Rightarrow> jbyteArray \<Rightarrow> module_state \<Rightarrow> result" where
  "getLinkKeyNative env address s =
     (case sBluetoothVendorInterface s of
        None \<Rightarrow> (Returned RVoid, [], s)
      | Some _ \<Rightarrow>
          (case GetByteArrayElements env Pin_address address of
            None \<Rightarrow> (Returned RVoid, [JniThrowIOException_EINVAL], s)
          | Some addr \<Rightarrow> (Returned RVoid, [Hal (HAL_get_link_key addr)], s)))"

section \<open>The registered native methods\<close>

text \<open>
  The two \<^verbatim>\<open>sMethods\<close> tables register, besides \<^verbatim>\<open>classInitNative\<close>,
  \<^verbatim>\<open>initNative\<close> and \<^verbatim>\<open>cleanupNative\<close>, the outbound commands below. A
  \<open>native_call\<close> is one call of a command by the JVM with its arguments.
\<close>

datatype native_call =
    Call_sendPassThroughCommandNative jbyteArray jint jint
  | Call_sendGroupNavigationCommandNative jbyteArray jint jint
  | Call_setPlayerApplicationSettingValuesNative jbyteArray jbyte jbyteArray jbyteArray
  | Call_sendAbsVolRspNative jbyteArray jint jint
  | Call_sendRegisterAbsVolRspNative jbyteArray jbyte jint jint
  | Call_getPlaybackStateNative jbyteArray
  | Call_getNowPlayingListNative jbyteArray jint jint
  | Call_getFolderListNative jbyteArray jint jint
  | Call_getPlayerListNative jbyteArray jint jint
  | Call_changeFolderPathNative jbyteArray jint jbyte jbyteArray
  | Call_playItemNative jbyteArray jbyte jbyteArray jint
  | Call_setBrowsedPlayerNative jbyteArray jint
  | Call_setAddressedPlayerNative jbyteArray jint
  | Call_getItemElementAttributesNative jbyteArray jbyte "jintArray option"
  | Call_getElementAttributesNative jbyteArray jbyte "jintArray option"
  | Call_getFolderItemsNative jbyteArray jbyte jint jint jbyte "jintArray option"
  | Call_searchNative jbyteArray jint jint "uint8_t list"
  | Call_getSearchListNative jbyteArray jint jint
  | Call_addToNowPlayingNative jbyteArray jbyte jbyteArray jint
  | Call_getItemAttributesNative jbyteArray jbyte jbyteArray jint jbyte "jintArray option"
  | Call_getTotalNumOfItemsNative jbyteArray jbyte
  | Call_fetchPlayerApplicationSettingNative jbyteArray
  | Call_requestContinuingResponseNative jbyteArray jbyte
  | Call_abortContinuingResponseNative jbyteArray jbyte
  | Call_disconnectNative jbyteArray
  | Call_bredrcleanupNative
  | Call_setWifiStateNative bool
  | Call_getProfileInfoNative jint jint
  | Call_getLinkKeyNative jbyteArray

fun run_command :: "jni_env \<Rightarrow> hal_env \<Rightarrow> native_call \<Rightarrow> module_state \<Rightarrow> result" where
  "run_command env hal (Call_sendPassThroughCommandNative a1 a2 a3) s = sendPassThroughCommandNative env hal a1 a2 a3 s"
| "run_command env hal (Call_sendGroupNavigationCommandNative a1 a2 a3) s = sendGroupNavigationCommandNative env hal a1 a2 a3 s"
| "run_command env hal (Call_setPlayerApplicationSettingValuesNative a1 a2 a3 a4) s = setPlayerApplicationSettingValuesNative env hal a1 a2 a3 a4 s"
| "run_command env hal (Call_sendAbsVolRspNative a1 a2 a3) s = sendAbsVolRspNative env hal a1 a2 a3 s"
| "run_command env hal (Call_sendRegisterAbsVolRspNative a1 a2 a3 a4) s = sendRegisterAbsVolRspNative env hal a1 a2 a3 a4 s"
| "run_command env hal (Call_getPlaybackStateNative a1) s = getPlaybackStateNative env hal a1 s"
| "run_command env hal (Call_getNowPlayingListNative a1 a2 a3) s = getNowPlayingListNative env hal a1 a2 a3 s"
| "run_command env hal (Call_getFolderListNative a1 a2 a3) s = getFolderListNative env hal a1 a2 a3 s"
| "run_command env hal (Call_getPlayerListNative a1 a2 a3) s = getPlayerListNative env hal a1 a2 a3 s"
| "run_command env hal (Call_changeFolderPathNative a1 a2 a3 a4) s = changeFolderPathNative env hal a1 a2 a3 a4 s"
| "run_command env hal (Call_playItemNative a1 a2 a3 a4) s = playItemNative env hal a1 a2 a3 a4 s"
| "run_command env hal (Call_setBrowsedPlayerNative a1 a2) s = setBrowsedPlayerNative env hal a1 a2 s"
| "run_command env hal (Call_setAddressedPlayerNative a1 a2) s = setAddressedPlayerNative env hal a1 a2 s"
| "run_command env hal (Call_getItemElementAttributesNative a1 a2 a3) s = getItemElementAttributesNative env hal a1 a2 a3 s"
| "run_command env hal (Call_getElementAttributesNative a1 a2 a3) s = getElementAttributesNative env hal a1 a2 a3 s"
| "run_command env hal (Call_getFolderItemsNative a1 a2 a3 a4 a5 a6) s = getFolderItemsNative env hal a1 a2 a3 a4 a5 a6 s"
| "run_command env hal (Call_searchNative a1 a2 a3 a4) s = searchNative env hal a1 a2 a3 a4 s"
| "run_command env hal (Call_getSearchListNative a1 a2 a3) s = getSearchListNative env hal a1 a2 a3 s"
| "run_command env hal (Call_addToNowPlayingNative a1 a2 a3 a4) s = addToNowPlayingNative env hal a1 a2 a3 a4 s"
| "run_command env hal (Call_getItemAttributesNative a1 a2 a3 a4 a5 a6) s = getItemAttributesNative env hal a1 a2 a3 a4 a5 a6 s"
| "run_command env hal (Call_getTotalNumOfItemsNative a1 a2) s = getTotalNumOfItemsNative env hal a1 a2 s"
| "run_command env hal (Call_fetchPlayerApplicationSettingNative a1) s = fetchPlayerApplicationSettingNative env hal a1 s"
| "run_command env hal (Call_requestContinuingResponseNative a1 a2) s = requestContinuingResponseNative env hal a1 a2 s"
| "run_command env hal (Call_abortContinuingResponseNative a1 a2) s = abortContinuingResponseNative env hal a1 a2 s"
| "run_command env hal (Call_disconnectNative a1) s = disconnectNative env hal a1 s"
| "run_command env hal Call_bredrcleanupNative s = bredrcleanupNative s"
| "run_command env hal (Call_setWifiStateNative a1) s = setWifiStateNative a1 s"
| "run_command env hal (Call_getProfileInfoNative a1 a2) s = getProfileInfoNative hal a1 a2 s"
| "run_command env hal (Call_getLinkKeyNative a1) s = getLinkKeyNative env a1 s"

text \<open>
  The interface pointer through which a command makes its HAL call, as the call is written
  in the source: \<^verbatim>\<open>sBluetoothAvrcpInterface->...\<close>,
  \<^verbatim>\<open>sBluetoothAvrcpVendorInterface->...\<close> or \<^verbatim>\<open>sBluetoothVendorInterface->...\<close>.
\<close>

fun through :: "native_call \<Rightarrow> module_state \<Rightarrow> hal_ptr option" where
  "through (Call_sendPassThroughCommandNative a1 a2 a3) s = sBluetoothAvrcpInterface s"
| "through (Call_sendGroupNavigationCommandNative a1 a2 a3) s = sBluetoothAvrcpInterface s"
| "through (Call_setPlayerApplicationSettingValuesNative a1 a2 a3 a4) s = sBluetoothAvrcpInterface s"
| "through (Call_sendAbsVolRspNative a1 a2 a3) s = sBluetoothAvrcpInterface s"
| "through (Call_sendRegisterAbsVolRspNative a1 a2 a3 a4) s = sBluetoothAvrcpInterface s"
| "through (Call_getPlaybackStateNative a1) s = sBluetoothAvrcpInterface s"
| "through (Call_getNowPlayingListNative a1 a2 a3) s = sBluetoothAvrcpInterface s"
| "through (Call_getFolderListNative a1 a2 a3) s = sBluetoothAvrcpInterface s"
| "through (Call_getPlayerListNative a1 a2 a3) s = sBluetoothAvrcpInterface s"
| "through (Call_changeFolderPathNative a1 a2 a3 a4) s = sBluetoothAvrcpInterface s"
| "through (Call_playItemNative a1 a2 a3 a4) s = sBluetoothAvrcpInterface s"
| "through (Call_setBrowsedPlayerNative a1 a2) s = sBluetoothAvrcpInterface s"
| "through (Call_setAddressedPlayerNative a1 a2) s = sBluetoothAvrcpInterface s"
| "through (Call_getItemElementAttributesNative a1 a2 a3) s = sBluetoothAvrcpVendorInterface s"
| "through (Call_getElementAttributesNative a1 a2 a3) s = sBluetoothAvrcpVendorInterface s"
| "through (Call_getFolderItemsNative a1 a2 a3 a4 a5 a6) s = sBluetoothAvrcpVendorInterface s"
| "through (Call_searchNative a1 a2 a3 a4) s = sBluetoothAvrcpVendorInterface s"
| "through (Call_getSearchListNative a1 a2 a3) s = sBluetoothAvrcpVendorInterface s"
| "through (Call_addToNowPlayingNative a1 a2 a3 a4) s = sBluetoothAvrcpVendorInterface s"
| "through (Call_getItemAttributesNative a1 a2 a3 a4 a5 a6) s = sBluetoothAvrcpVendorInterface s"
| "through (Call_getTotalNumOfItemsNative a1 a2) s = sBluetoothAvrcpVendorInterface s"
| "through (Call_fetchPlayerApplicationSettingNative a1) s = sBluetoothAvrcpVendorInterface s"
| "through (Call_requestContinuingResponseNative a1 a2) s = sBluetoothAvrcpVendorInterface s"
| "through (Call_abortContinuingResponseNative a1 a2) s = sBluetoothAvrcpVendorInterface s"
| "through (Call_disconnectNative a1) s = sBluetoothAvrcpVendorInterface s"
| "through Call_bredrcleanupNative s = sBluetoothVendorInterface s"
| "through (Call_setWifiStateNative a1) s = sBluetoothVendorInterface s"
| "through (Call_getProfileInfoNative a1 a2) s = sBluetoothVendorInterface s"
| "through (Call_getLinkKeyNative a1) s = sBluetoothVendorInterface s"

text \<open>Every registered method of both tables, and the states a sequence of them can reach.\<close>

datatype native_op =
    Op_classInitNative
  | Op_initNative jobject
  | Op_cleanupNative
  | Op_vendor_classInitNative
  | Op_vendor_initNative jobject
  | Op_vendor_cleanupNative
  | Op_command native_call

fun run_op :: "jni_env \<Rightarrow> hal_env \<Rightarrow> native_op \<Rightarrow> module_state \<Rightarrow> result" where
  "run_op env hal Op_classInitNative s = classInitNative s"
| "run_op env hal (Op_initNative object) s = initNative env hal object s"
| "run_op env hal Op_cleanupNative s = cleanupNative hal s"
| "run_op env hal Op_vendor_classInitNative s = classInitNative s"
| "run_op env hal (Op_vendor_initNative object) s = vendor_initNative env hal object s"
| "run_op env hal Op_vendor_cleanupNative s = vendor_cleanupNative hal s"
| "run_op env hal (Op_command c) s = run_command env hal c s"

text \<open>
  A state is reachable when the process gets to it from the initial statics by native
  methods that return, each with whatever the JVM and the HAL answer at that moment.
\<close>

inductive reachable :: "module_state \<Rightarrow> bool" where
  reachable_initial: "reachable initial_state"
| reachable_step:
    "reachable s \<Longrightarrow> run_op env hal op s = (Returned r, tr, s') \<Longrightarrow> reachable s'"

definition paired :: "module_state \<Rightarrow> bool" where
  "paired s \<longleftrightarrow> (sBluetoothAvrcpInterface s = None) = (sBluetoothAvrcpVendorInterface s = None)"

text \<open>An environment in which every binding call and every HAL call succeeds.\<close>

definition jni_all_ok :: jni_env where
  "jni_all_ok = \<lparr> valid = True, alloc_ok = (\<lambda>_. True), pin_ok = (\<lambda>_. True),
                  ctor_result = (\<lambda>i. Some i) \<rparr>"

definition hal_all_ok :: hal_env where
  "hal_all_ok = \<lparr> getBluetoothInterface = True, get_profile_interface = (\<lambda>_. Some 1),
                  init_status = 0, init_vendor_status = 0, vendor_init_status = 0,
                  cmd_status = (\<lambda>_. 0), get_profile_info_result = True,
                  BTRC_MAX_ELEM_ATTR_SIZE = 8 \<rparr>"

text \<open>The statics after an \<^verbatim>\<open>initNative\<close> in which everything succeeds.\<close>

definition ready_state :: module_state where
  "ready_state = state_of (initNative jni_all_ok hal_all_ok 7 initial_state)"

lemmas command_defs =
  sendPassThroughCommandNative_def sendGroupNavigationCommandNative_def
  setPlayerApplicationSettingValuesNative_def sendAbsVolRspNative_def
  sendRegisterAbsVolRspNative_def getPlaybackStateNative_def getNowPlayingListNative_def
  getFolderListNative_def getPlayerListNative_def changeFolderPathNative_def
  playItemNative_def setBrowsedPlayerNative_def setAddressedPlayerNative_def
  getItemElementAttributesNative_def getElementAttributesNative_def getFolderItemsNative_def
  searchNative_def getSearchListNative_def addToNowPlayingNative_def
  getItemAttributesNative_def getTotalNumOfItemsNative_def
  fetchPlayerApplicationSettingNative_def requestContinuingResponseNative_def
  abortContinuingResponseNative_def disconnectNative_def bredrcleanupNative_def
  setWifiStateNative_def getProfileInfoNative_def getLinkKeyNative_def

section \<open>Properties of the outbound commands\<close>

lemma clear_vendor_iface:
  "(if sBluetoothAvrcpVendorInterface s \<noteq> None then s\<lparr> sBluetoothAvrcpVendorInterface := None \<rparr> else s)
   = s\<lparr> sBluetoothAvrcpVendorInterface := None \<rparr>"
  by simp

lemma clear_iface:
  "(if sBluetoothAvrcpInterface s \<noteq> None then s\<lparr> sBluetoothAvrcpInterface := None \<rparr> else s)
   = s\<lparr> sBluetoothAvrcpInterface := None \<rparr>"
  by simp

lemma clear_callbacks:
  "(if sCallbacksObj s \<noteq> None then s\<lparr> sCallbacksObj := None \<rparr> else s)
   = s\<lparr> sCallbacksObj := None \<rparr>"
  by simp

lemma initNative_complete_paired:
  "getBluetoothInterface hal \<Longrightarrow> paired (snd (snd (initNative env hal object s)))"
  unfolding initNative_def Let_def clear_vendor_iface clear_iface clear_callbacks
  by (auto simp add: paired_def)

lemma initNative_not_loaded:
  "\<not> getBluetoothInterface hal \<Longrightarrow>
   sBluetoothAvrcpInterface (snd (snd (initNative env hal object s))) = sBluetoothAvrcpInterface s \<and>
   sBluetoothAvrcpVendorInterface (snd (snd (initNative env hal object s))) = sBluetoothAvrcpVendorInterface s"
  by (simp add: initNative_def Let_def)

lemma paired_initNative: "paired s \<Longrightarrow> paired (snd (snd (initNative env hal object s)))"
proof (cases "getBluetoothInterface hal")
  case True
  then show ?thesis by (rule initNative_complete_paired)
next
  case False
  assume "paired s"
  with initNative_not_loaded [OF False, of env object s] show ?thesis
    by (simp add: paired_def)
qed

lemma cleanupNative_complete_paired:
  "getBluetoothInterface hal \<Longrightarrow> paired (snd (snd (cleanupNative hal s)))"
  unfolding cleanupNative_def Let_def clear_vendor_iface clear_iface clear_callbacks
  by (simp add: paired_def)

lemma paired_cleanupNative: "paired s \<Longrightarrow> paired (snd (snd (cleanupNative hal s)))"
  by (cases "getBluetoothInterface hal")
     (simp_all add: cleanupNative_complete_paired, simp add: cleanupNative_def)

lemma paired_vendor_initNative: "paired s \<Longrightarrow> paired (snd (snd (vendor_initNative env hal object s)))"
  by (simp add: vendor_initNative_def paired_def Let_def)

lemma paired_vendor_cleanupNative: "paired s \<Longrightarrow> paired (snd (snd (vendor_cleanupNative hal s)))"
  by (simp add: vendor_cleanupNative_def paired_def Let_def)

lemma run_command_frame: "snd (snd (run_command env hal c s)) = s"
  by (cases c) (simp_all add: command_defs Let_def split: option.splits prod.splits)

lemma paired_run_op: "paired s \<Longrightarrow> paired (snd (snd (run_op env hal op s)))"
  by (cases op)
     (simp_all add: classInitNative_def paired_initNative paired_cleanupNative
        paired_vendor_initNative paired_vendor_cleanupNative run_command_frame)

lemma reachable_paired: "reachable s \<Longrightarrow> paired s"
proof (induction rule: reachable.induct)
  case reachable_initial
  show ?case by (simp add: paired_def initial_state_def)
next
  case (reachable_step s env hal op r tr s')
  from paired_run_op [OF reachable_step.IH, of env hal op] reachable_step.hyps(2)
  show ?case by simp
qed

lemma no_iface_no_hal:
  "paired s \<Longrightarrow> through c s = None \<Longrightarrow>
   (\<exists>r. fst (run_command env hal c s) = Returned r) \<and> hal_calls (fst (snd (run_command env hal c s))) = []"
  by (cases c) (simp_all add: command_defs paired_def)


lemma hal_calls_append: "hal_calls (xs @ ys) = hal_calls xs @ hal_calls ys"
  by (induction xs rule: hal_calls.induct) simp_all

lemma hal_calls_hal_cmd: "hal_calls (hal_cmd hal call msg) = [call]"
  by (simp add: hal_cmd_def)

lemma aloge_lines_hal_cmd:
  "aloge_lines (hal_cmd hal call msg) = (if cmd_status hal call \<noteq> BT_STATUS_SUCCESS then [msg] else [])"
  by (simp add: hal_cmd_def)

subsection \<open>Return value of the two send commands\<close>

text \<open>
  Claim C6. \<^verbatim>\<open>sendPassThroughCommandNative\<close> and \<^verbatim>\<open>sendGroupNavigationCommandNative\<close>
  return \<^verbatim>\<open>JNI_FALSE\<close> without any HAL call when \<^verbatim>\<open>sBluetoothAvrcpInterface\<close> is
  null or the address array cannot be pinned; otherwise they make exactly the one send
  call, with the pinned address and the two codes cast to \<^verbatim>\<open>uint8_t\<close>, and return
  \<^verbatim>\<open>JNI_TRUE\<close> exactly when that call returned \<^verbatim>\<open>BT_STATUS_SUCCESS\<close>.
\<close>

theorem send_commands_return_value:
  "(sBluetoothAvrcpInterface s = None \<or> GetByteArrayElements env Pin_address address = None \<longrightarrow>
      outcome_of (sendPassThroughCommandNative env hal address key_code key_state s)
        = Returned (RBool False) \<and>
      hal_calls (trace_of (sendPassThroughCommandNative env hal address key_code key_state s)) = [] \<and>
      outcome_of (sendGroupNavigationCommandNative env hal address key_code key_state s)
        = Returned (RBool False) \<and>
      hal_calls (trace_of (sendGroupNavigationCommandNative env hal address key_code key_state s)) = [])
   \<and>
   (sBluetoothAvrcpInterface s \<noteq> None \<and> GetByteArrayElements env Pin_address address = Some addr \<longrightarrow>
      hal_calls (trace_of (sendPassThroughCommandNative env hal address key_code key_state s))
        = [HAL_send_pass_through_cmd addr (ucast key_code) (ucast key_state)] \<and>
      outcome_of (sendPassThroughCommandNative env hal address key_code key_state s)
        = Returned (RBool (cmd_status hal
            (HAL_send_pass_through_cmd addr (ucast key_code) (ucast key_state)) = BT_STATUS_SUCCESS)) \<and>
      hal_calls (trace_of (sendGroupNavigationCommandNative env hal address key_code key_state s))
        = [HAL_send_group_navigation_cmd addr (ucast key_code) (ucast key_state)] \<and>
      outcome_of (sendGroupNavigationCommandNative env hal address key_code key_state s)
        = Returned (RBool (cmd_status hal
            (HAL_send_group_navigation_cmd addr (ucast key_code) (ucast key_state)) = BT_STATUS_SUCCESS)))"
  by (auto simp add: sendPassThroughCommandNative_def sendGroupNavigationCommandNative_def
        outcome_of_def trace_of_def hal_calls_hal_cmd Let_def split: option.splits)

theorem send_commands_return_value_witness:
  "outcome_of (sendPassThroughCommandNative jni_all_ok hal_all_ok [1, 2, 3, 4, 5, 6] 68 0 initial_state)
     = Returned (RBool False) \<and>
   hal_calls (trace_of (sendPassThroughCommandNative jni_all_ok hal_all_ok [1, 2, 3, 4, 5, 6] 68 0
     initial_state)) = [] \<and>
   outcome_of (sendPassThroughCommandNative jni_all_ok hal_all_ok [1, 2, 3, 4, 5, 6] 68 0
     (initial_state\<lparr> sBluetoothAvrcpInterface := Some 1, sBluetoothAvrcpVendorInterface := Some 2 \<rparr>))
     = Returned (RBool True) \<and>
   hal_calls (trace_of (sendGroupNavigationCommandNative jni_all_ok hal_all_ok [1, 2, 3, 4, 5, 6] 68 0
     (initial_state\<lparr> sBluetoothAvrcpInterface := Some 1, sBluetoothAvrcpVendorInterface := Some 2 \<rparr>)))
     = [HAL_send_group_navigation_cmd [1, 2, 3, 4, 5, 6] 68 0]"
  using send_commands_return_value [of initial_state jni_all_ok "[1, 2, 3, 4, 5, 6]" hal_all_ok 68 0 "[]"]
    send_commands_return_value [of "initial_state\<lparr> sBluetoothAvrcpInterface := Some 1,
        sBluetoothAvrcpVendorInterface := Some 2 \<rparr>" jni_all_ok "[1, 2, 3, 4, 5, 6]" hal_all_ok 68 0
        "[1, 2, 3, 4, 5, 6]"]
  by (simp add: initial_state_def jni_all_ok_def hal_all_ok_def GetByteArrayElements_def
        BT_STATUS_SUCCESS_def)

subsection \<open>Commands do not touch the statics\<close>

text \<open>
  Claim C7. Whatever the JVM and the HAL answer, every outbound command of either table
  (and \<^verbatim>\<open>classInitNative\<close>) hands back the statics it found: the three interface
  pointers, the two callback references and the two class references. Only
  \<^verbatim>\<open>initNative\<close> and \<^verbatim>\<open>cleanupNative\<close> assign to them.
\<close>

theorem commands_leave_statics_unchanged:
  "state_of (run_command env hal c s) = s \<and> state_of (classInitNative s) = s"
  by (simp add: state_of_def run_command_frame classInitNative_def)

subsection \<open>The two AVRCP interface pointers are set and cleared together\<close>

text \<open>
  \<^verbatim>\<open>initNative\<close> reaches its end with both pointers set exactly when the four steps
  succeed: both profile lookups and both \<^verbatim>\<open>init\<close> calls.
\<close>

definition initNative_succeeds :: "hal_env \<Rightarrow> bool" where
  "initNative_succeeds hal \<longleftrightarrow>
     get_profile_interface hal BT_PROFILE_AV_RC_CTRL_ID \<noteq> None \<and>
     init_status hal = BT_STATUS_SUCCESS \<and>
     get_profile_interface hal BT_PROFILE_AV_RC_VENDOR_CTRL_ID \<noteq> None \<and>
     init_vendor_status hal = BT_STATUS_SUCCESS"

lemma initNative_vendor_set:
  "getBluetoothInterface hal \<Longrightarrow>
   (sBluetoothAvrcpVendorInterface (snd (snd (initNative env hal object s))) \<noteq> None)
     = initNative_succeeds hal"
  unfolding initNative_def Let_def clear_vendor_iface clear_iface clear_callbacks
  by (auto simp add: initNative_succeeds_def)

lemma initNative_vendor_after_base:
  "HAL_init_vendor \<in> set (hal_calls (trace_of (initNative env hal object s))) \<Longrightarrow>
   HAL_init \<in> set (hal_calls (trace_of (initNative env hal object s))) \<and>
   init_status hal = BT_STATUS_SUCCESS"
  unfolding initNative_def Let_def clear_vendor_iface clear_iface clear_callbacks trace_of_def
  by (simp add: hal_calls_append split: if_splits)

lemma initNative_failure_nulls_both:
  assumes "getBluetoothInterface hal" and "\<not> initNative_succeeds hal"
  shows "sBluetoothAvrcpInterface (snd (snd (initNative env hal object s))) = None \<and>
         sBluetoothAvrcpVendorInterface (snd (snd (initNative env hal object s))) = None"
proof -
  from initNative_vendor_set [OF assms(1), of env object s] assms(2)
  have v: "sBluetoothAvrcpVendorInterface (snd (snd (initNative env hal object s))) = None"
    by simp
  from initNative_complete_paired [OF assms(1), of env object s] v show ?thesis
    by (simp add: paired_def)
qed

lemma cleanupNative_not_loaded:
  "\<not> getBluetoothInterface hal \<Longrightarrow> snd (snd (cleanupNative hal s)) = s"
  by (simp add: cleanupNative_def)

lemma avrcp_pairing_invariant:
  "(reachable s \<longrightarrow> paired s) \<and>
   (paired s \<longrightarrow> paired (state_of (run_op env hal op s))) \<and>
   (getBluetoothInterface hal \<longrightarrow>
      paired (state_of (initNative env hal object s)) \<and>
      paired (state_of (cleanupNative hal s)) \<and>
      (sBluetoothAvrcpVendorInterface (state_of (initNative env hal object s)) \<noteq> None
         \<longleftrightarrow> initNative_succeeds hal)) \<and>
   (HAL_init_vendor \<in> set (hal_calls (trace_of (initNative env hal object s)))
      \<longrightarrow> HAL_init \<in> set (hal_calls (trace_of (initNative env hal object s))) \<and>
          init_status hal = BT_STATUS_SUCCESS)"
proof (intro conjI impI)
  assume "reachable s"
  then show "paired s" by (rule reachable_paired)
next
  assume "paired s"
  then show "paired (state_of (run_op env hal op s))"
    unfolding state_of_def by (rule paired_run_op)
next
  assume "getBluetoothInterface hal"
  then show "paired (state_of (initNative env hal object s))"
    unfolding state_of_def by (rule initNative_complete_paired)
next
  assume "getBluetoothInterface hal"
  then show "paired (state_of (cleanupNative hal s))"
    unfolding state_of_def by (rule cleanupNative_complete_paired)
next
  assume "getBluetoothInterface hal"
  then show "(sBluetoothAvrcpVendorInterface (state_of (initNative env hal object s)) \<noteq> None)
      = initNative_succeeds hal"
    unfolding state_of_def by (rule initNative_vendor_set)
next
  assume "HAL_init_vendor \<in> set (hal_calls (trace_of (initNative env hal object s)))"
  then show "HAL_init \<in> set (hal_calls (trace_of (initNative env hal object s)))"
    by (simp add: initNative_vendor_after_base)
next
  assume "HAL_init_vendor \<in> set (hal_calls (trace_of (initNative env hal object s)))"
  then show "init_status hal = BT_STATUS_SUCCESS"
    by (simp add: initNative_vendor_after_base)
qed


text \<open>
  Claim C8, as amended. In every reachable state \<^verbatim>\<open>sBluetoothAvrcpInterface\<close> and
  \<^verbatim>\<open>sBluetoothAvrcpVendorInterface\<close> are both null or both set, and every registered
  method keeps that. A run of \<^verbatim>\<open>initNative\<close> or \<^verbatim>\<open>cleanupNative\<close> that gets past the
  \<^verbatim>\<open>getBluetoothInterface()\<close> test establishes it from any state: \<^verbatim>\<open>initNative\<close>
  leaves both set exactly when all its steps succeed, and every failure path after that
  test nulls both. The failure path on which \<^verbatim>\<open>getBluetoothInterface()\<close> returns null
  nulls nothing: \<^verbatim>\<open>initNative\<close> returns with both pointers as they were, and
  \<^verbatim>\<open>cleanupNative\<close> with all statics as they were. \<^verbatim>\<open>init_vendor\<close> is called only
  after \<^verbatim>\<open>init\<close> returned \<^verbatim>\<open>BT_STATUS_SUCCESS\<close>.
\<close>

theorem avrcp_interfaces_paired:
  "(reachable s \<longrightarrow> paired s) \<and>
   (paired s \<longrightarrow> paired (state_of (run_op env hal op s))) \<and>
   (getBluetoothInterface hal \<longrightarrow>
      paired (state_of (initNative env hal object s)) \<and>
      paired (state_of (cleanupNative hal s)) \<and>
      (sBluetoothAvrcpVendorInterface (state_of (initNative env hal object s)) \<noteq> None
         \<longleftrightarrow> initNative_succeeds hal)) \<and>
   (HAL_init_vendor \<in> set (hal_calls (trace_of (initNative env hal object s)))
      \<longrightarrow> HAL_init \<in> set (hal_calls (trace_of (initNative env hal object s))) \<and>
          init_status hal = BT_STATUS_SUCCESS) \<and>
   (getBluetoothInterface hal \<and> \<not> initNative_succeeds hal \<longrightarrow>
      sBluetoothAvrcpInterface (state_of (initNative env hal object s)) = None \<and>
      sBluetoothAvrcpVendorInterface (state_of (initNative env hal object s)) = None) \<and>
   (\<not> getBluetoothInterface hal \<longrightarrow>
      sBluetoothAvrcpInterface (state_of (initNative env hal object s))
        = sBluetoothAvrcpInterface s \<and>
      sBluetoothAvrcpVendorInterface (state_of (initNative env hal object s))
        = sBluetoothAvrcpVendorInterface s \<and>
      state_of (cleanupNative hal s) = s)"
proof -
  note inv = avrcp_pairing_invariant [of s env hal op object]
  have fail: "sBluetoothAvrcpInterface (state_of (initNative env hal object s)) = None \<and>
      sBluetoothAvrcpVendorInterface (state_of (initNative env hal object s)) = None"
    if "getBluetoothInterface hal \<and> \<not> initNative_succeeds hal"
    using that initNative_failure_nulls_both [of hal env object s] by (simp add: state_of_def)
  have same: "sBluetoothAvrcpInterface (state_of (initNative env hal object s))
        = sBluetoothAvrcpInterface s \<and>
      sBluetoothAvrcpVendorInterface (state_of (initNative env hal object s))
        = sBluetoothAvrcpVendorInterface s \<and>
      state_of (cleanupNative hal s) = s"
    if "\<not> getBluetoothInterface hal"
    using that initNative_not_loaded [of hal env object s] cleanupNative_not_loaded [of hal s]
    by (simp add: state_of_def)
  from inv fail same show ?thesis by blast
qed

theorem avrcp_interfaces_paired_witness:
  "reachable initial_state \<and> paired initial_state \<and>
   paired (state_of (run_op jni_all_ok hal_all_ok (Op_initNative 7) initial_state)) \<and>
   getBluetoothInterface hal_all_ok \<and>
   paired (state_of (initNative jni_all_ok hal_all_ok 7
     (initial_state\<lparr> sBluetoothAvrcpInterface := Some 5 \<rparr>))) \<and>
   sBluetoothAvrcpVendorInterface (state_of (initNative jni_all_ok hal_all_ok 7 initial_state)) = Some 1"
proof -
  have r: "reachable initial_state" by (rule reachable_initial)
  have l: "getBluetoothInterface hal_all_ok" by (simp add: hal_all_ok_def)
  note t1 = avrcp_interfaces_paired [of initial_state jni_all_ok hal_all_ok "Op_initNative 7" 7]
  note t2 = avrcp_interfaces_paired [of "initial_state\<lparr> sBluetoothAvrcpInterface := Some 5 \<rparr>"
      jni_all_ok hal_all_ok "Op_initNative 7" 7]
  from t1 r have p: "paired initial_state" by blast
  from t1 p have q: "paired (state_of (run_op jni_all_ok hal_all_ok (Op_initNative 7) initial_state))"
    by blast
  from t2 l have u: "paired (state_of (initNative jni_all_ok hal_all_ok 7
     (initial_state\<lparr> sBluetoothAvrcpInterface := Some 5 \<rparr>)))"
    by blast
  have v: "sBluetoothAvrcpVendorInterface (state_of (initNative jni_all_ok hal_all_ok 7 initial_state))
      = Some 1"
    by (simp add: hal_all_ok_def jni_all_ok_def initNative_def state_of_def
        initial_state_def FindClass_def NewGlobalRef_def BT_STATUS_SUCCESS_def)
  from r p q l u v show ?thesis by blast
qed

text \<open>
  As first stated, C8 has every failure path of \<^verbatim>\<open>initNative\<close> null both pointers. After
  a successful \<^verbatim>\<open>initNative\<close>, a second call during which \<^verbatim>\<open>getBluetoothInterface()\<close>
  returns null fails (it logs that the module is not loaded and returns) and leaves both
  pointers set.
\<close>

theorem initNative_not_loaded_counterexample:
  "reachable ready_state \<and>
   trace_of (initNative jni_all_ok (hal_all_ok\<lparr> getBluetoothInterface := False \<rparr>) 7 ready_state)
     = [ALOGE ''Bluetooth module is not loaded''] \<and>
   sBluetoothAvrcpInterface
     (state_of (initNative jni_all_ok (hal_all_ok\<lparr> getBluetoothInterface := False \<rparr>) 7 ready_state))
     = Some 1 \<and>
   sBluetoothAvrcpVendorInterface
     (state_of (initNative jni_all_ok (hal_all_ok\<lparr> getBluetoothInterface := False \<rparr>) 7 ready_state))
     = Some 1"
proof -
  have "run_op jni_all_ok hal_all_ok (Op_initNative 7) initial_state =
      (Returned RVoid, [Hal HAL_init, Hal HAL_init_vendor], ready_state)"
    by (simp add: ready_state_def state_of_def initNative_def jni_all_ok_def hal_all_ok_def
          initial_state_def FindClass_def NewGlobalRef_def BT_STATUS_SUCCESS_def)
  with reachable_initial have r: "reachable ready_state" by (rule reachable_step)
  have "trace_of (initNative jni_all_ok (hal_all_ok\<lparr> getBluetoothInterface := False \<rparr>) 7 ready_state)
     = [ALOGE ''Bluetooth module is not loaded''] \<and>
   sBluetoothAvrcpInterface
     (state_of (initNative jni_all_ok (hal_all_ok\<lparr> getBluetoothInterface := False \<rparr>) 7 ready_state))
     = Some 1 \<and>
   sBluetoothAvrcpVendorInterface
     (state_of (initNative jni_all_ok (hal_all_ok\<lparr> getBluetoothInterface := False \<rparr>) 7 ready_state))
     = Some 1"
    by (simp add: ready_state_def state_of_def trace_of_def initNative_def jni_all_ok_def
          hal_all_ok_def initial_state_def FindClass_def NewGlobalRef_def BT_STATUS_SUCCESS_def)
  with r show ?thesis by simp
qed

subsection \<open>No HAL call through a null interface pointer\<close>

text \<open>
  Claim C1. In every reachable state, a command whose HAL call goes through a null
  interface pointer returns without any HAL call, so the null dereference is never
  executed. This includes \<^verbatim>\<open>fetchPlayerApplicationSettingNative\<close>, which calls through
  \<^verbatim>\<open>sBluetoothAvrcpVendorInterface\<close> but tests \<^verbatim>\<open>sBluetoothAvrcpInterface\<close>: the two
  are null together in every reachable state, so it returns at its test with an empty trace.
\<close>

theorem null_interface_no_hal_call:
  assumes "reachable s" and "through c s = None"
  shows "(\<exists>r. outcome_of (run_command env hal c s) = Returned r) \<and>
         hal_calls (trace_of (run_command env hal c s)) = [] \<and>
         (\<forall>address. c = Call_fetchPlayerApplicationSettingNative address \<longrightarrow>
            through c s = sBluetoothAvrcpVendorInterface s \<and>
            outcome_of (fetchPlayerApplicationSettingNative env hal address s) = Returned RVoid \<and>
            trace_of (fetchPlayerApplicationSettingNative env hal address s) = [])"
proof -
  have p: "paired s" using assms(1) by (rule reachable_paired)
  from no_iface_no_hal [OF p assms(2), of env hal]
  have a: "(\<exists>r. outcome_of (run_command env hal c s) = Returned r) \<and>
         hal_calls (trace_of (run_command env hal c s)) = []"
    by (simp add: outcome_of_def trace_of_def)
  have b: "outcome_of (fetchPlayerApplicationSettingNative env hal address s) = Returned RVoid \<and>
           trace_of (fetchPlayerApplicationSettingNative env hal address s) = []"
    if "c = Call_fetchPlayerApplicationSettingNative address" for address
    using that p assms(2)
    by (simp add: fetchPlayerApplicationSettingNative_def paired_def outcome_of_def trace_of_def)
  from a b show ?thesis by simp
qed

theorem null_interface_no_hal_call_witness:
  "reachable initial_state \<and>
   through (Call_fetchPlayerApplicationSettingNative [1, 2, 3, 4, 5, 6]) initial_state = None \<and>
   (\<exists>r. outcome_of (run_command jni_all_ok hal_all_ok
          (Call_fetchPlayerApplicationSettingNative [1, 2, 3, 4, 5, 6]) initial_state) = Returned r) \<and>
   hal_calls (trace_of (run_command jni_all_ok hal_all_ok
          (Call_fetchPlayerApplicationSettingNative [1, 2, 3, 4, 5, 6]) initial_state)) = []"
proof -
  have r: "reachable initial_state" by (rule reachable_initial)
  have t: "through (Call_fetchPlayerApplicationSettingNative [1, 2, 3, 4, 5, 6]) initial_state = None"
    by (simp add: initial_state_def)
  from null_interface_no_hal_call [OF r t, of jni_all_ok hal_all_ok] r t show ?thesis by simp
qed

text \<open>
  The hypothesis of reachability is needed: in a state with the first pointer set and the
  second null, which no sequence of native methods produces, the call is made through
  the null pointer.
\<close>

lemma fetch_unpaired_null_deref:
  "outcome_of (fetchPlayerApplicationSettingNative jni_all_ok hal_all_ok [1, 2, 3, 4, 5, 6]
     (initial_state\<lparr> sBluetoothAvrcpInterface := Some 1 \<rparr>)) = NullDeref"
  by (simp add: fetchPlayerApplicationSettingNative_def outcome_of_def initial_state_def
        jni_all_ok_def GetByteArrayElements_def)

subsection \<open>More attributes than \<^verbatim>\<open>BTRC_MAX_ELEM_ATTR_SIZE\<close>\<close>

text \<open>
  Claim C9, as amended. With \<^verbatim>\<open>numAttr > BTRC_MAX_ELEM_ATTR_SIZE\<close> (a signed
  comparison), each of the four attribute-list commands returns without any HAL call. The
  "exceed maximum" error is logged exactly when the earlier tests were passed: the vendor
  interface pointer is set and the address array (for \<^verbatim>\<open>getItemAttributesNative\<close> also
  the uid array) was pinned; otherwise the command has already returned, silently or by
  throwing.
\<close>

theorem too_many_attributes_no_hal_call:
  assumes "BTRC_MAX_ELEM_ATTR_SIZE hal < sint numAttr"
  shows
   "hal_calls (trace_of (getItemElementAttributesNative env hal address numAttr attrIds s)) = [] \<and>
    outcome_of (getItemElementAttributesNative env hal address numAttr attrIds s) = Returned RVoid \<and>
    aloge_lines (trace_of (getItemElementAttributesNative env hal address numAttr attrIds s)) =
      (if sBluetoothAvrcpVendorInterface s \<noteq> None \<and> pin_ok env Pin_address
       then [''getItemElementAttributesNative: number of attributes exceed maximum''] else []) \<and>
    hal_calls (trace_of (getElementAttributesNative env hal address numAttr attrIds s)) = [] \<and>
    outcome_of (getElementAttributesNative env hal address numAttr attrIds s) = Returned RVoid \<and>
    aloge_lines (trace_of (getElementAttributesNative env hal address numAttr attrIds s)) =
      (if sBluetoothAvrcpVendorInterface s \<noteq> None \<and> pin_ok env Pin_address
       then [''getElementAttributesNative: number of attributes exceed maximum''] else []) \<and>
    hal_calls (trace_of (getFolderItemsNative env hal address scope start end' numAttr attrIds s)) = [] \<and>
    outcome_of (getFolderItemsNative env hal address scope start end' numAttr attrIds s) = Returned RVoid \<and>
    aloge_lines (trace_of (getFolderItemsNative env hal address scope start end' numAttr attrIds s)) =
      (if sBluetoothAvrcpVendorInterface s \<noteq> None \<and> pin_ok env Pin_address
       then [''getFolderItemsNative: number of attributes exceed maximum''] else []) \<and>
    hal_calls (trace_of (getItemAttributesNative env hal address scope uidArr uidCounter numAttr attrIds s)) = [] \<and>
    outcome_of (getItemAttributesNative env hal address scope uidArr uidCounter numAttr attrIds s)
      = Returned RVoid \<and>
    aloge_lines (trace_of (getItemAttributesNative env hal address scope uidArr uidCounter numAttr attrIds s)) =
      (if sBluetoothAvrcpVendorInterface s \<noteq> None \<and> pin_ok env Pin_address \<and> pin_ok env Pin_uid
       then [''getItemAttributesNative: number of attributes exceed maximum''] else [])"
  using assms
  by (simp add: getItemElementAttributesNative_def getElementAttributesNative_def
        getFolderItemsNative_def getItemAttributesNative_def outcome_of_def trace_of_def
        GetByteArrayElements_def split: option.splits)

theorem too_many_attributes_no_hal_call_witness:
  "BTRC_MAX_ELEM_ATTR_SIZE hal_all_ok < sint (100 :: jbyte) \<and>
   hal_calls (trace_of (getElementAttributesNative jni_all_ok hal_all_ok [1, 2, 3, 4, 5, 6] 100 None
     (initial_state\<lparr> sBluetoothAvrcpInterface := Some 1, sBluetoothAvrcpVendorInterface := Some 2 \<rparr>))) = [] \<and>
   aloge_lines (trace_of (getElementAttributesNative jni_all_ok hal_all_ok [1, 2, 3, 4, 5, 6] 100 None
     (initial_state\<lparr> sBluetoothAvrcpInterface := Some 1, sBluetoothAvrcpVendorInterface := Some 2 \<rparr>)))
     = [''getElementAttributesNative: number of attributes exceed maximum'']"
proof -
  have h: "BTRC_MAX_ELEM_ATTR_SIZE hal_all_ok < sint (100 :: jbyte)"
    by (simp add: hal_all_ok_def)
  from too_many_attributes_no_hal_call [OF h, of jni_all_ok "[1, 2, 3, 4, 5, 6]" None
      "initial_state\<lparr> sBluetoothAvrcpInterface := Some 1, sBluetoothAvrcpVendorInterface := Some 2 \<rparr>"]
    h
  show ?thesis by (simp add: jni_all_ok_def initial_state_def)
qed

text \<open>
  As first stated, C9 has the error logged on every such call. With the vendor interface
  pointer null the command returns at its first test and logs nothing.
\<close>

theorem too_many_attributes_silent_counterexample:
  "BTRC_MAX_ELEM_ATTR_SIZE hal_all_ok < sint (100 :: jbyte) \<and>
   aloge_lines (trace_of (getElementAttributesNative jni_all_ok hal_all_ok [1, 2, 3, 4, 5, 6] 100 None
     initial_state)) = []"
  by (simp add: hal_all_ok_def getElementAttributesNative_def trace_of_def initial_state_def)

section \<open>JNI arrays and strings built by the callbacks\<close>

text \<open>
  A fresh Java primitive array is zero-filled. \<^verbatim>\<open>Set<Type>ArrayRegion(array, start, len, buf)\<close>
  copies the first \<open>len\<close> elements of \<open>buf\<close> to positions \<open>start ..< start + len\<close>;
  when the region does not fit it raises \<^verbatim>\<open>ArrayIndexOutOfBoundsException\<close> and writes
  nothing. Whether the allocation itself succeeds is asked of the environment at each call
  site.
\<close>

definition sizeof_RawAddress :: nat where
  "sizeof_RawAddress = 6"

definition NewByteArray :: "nat \<Rightarrow> jbyte list" where
  "NewByteArray n = replicate n 0"

definition NewIntArray :: "nat \<Rightarrow> jint list" where
  "NewIntArray n = replicate n 0"

definition SetByteArrayRegion :: "jbyte list \<Rightarrow> nat \<Rightarrow> nat \<Rightarrow> uint8_t list \<Rightarrow> jbyte list" where
  "SetByteArrayRegion array start len buf =
     (if start + len \<le> length array
      then take start array @ take len buf @ drop (start + len) array
      else array)"

definition SetIntArrayRegion :: "jint list \<Rightarrow> nat \<Rightarrow> nat \<Rightarrow> uint32_t list \<Rightarrow> jint list" where
  "SetIntArrayRegion array start len buf =
     (if start + len \<le> length array
      then take start array @ take len buf @ drop (start + len) array
      else array)"

text \<open>
  \<^verbatim>\<open>NewStringUTF\<close> reads a C string: the bytes before the first NUL. A buffer without a
  NUL is read past its end. The call returns null when the allocation fails.
\<close>

definition c_string :: "uint8_t list \<Rightarrow> uint8_t list option" where
  "c_string buf = (if 0 \<in> set buf then Some (takeWhile (\<lambda>b. b \<noteq> 0) buf) else None)"

definition NewStringUTF :: "jni_env \<Rightarrow> alloc_site \<Rightarrow> uint8_t list \<Rightarrow> jvalue" where
  "NewStringUTF env site str = (if alloc_ok env site then JString str else JNull)"

text \<open>
  \<^verbatim>\<open>SetObjectArrayElement\<close> stores a null or an object of the array's element class;
  for an object of another class the JVM raises \<^verbatim>\<open>ArrayStoreException\<close> and the element
  keeps its value. The callbacks never test for a pending exception.
\<close>

fun storable :: "jclass option \<Rightarrow> jvalue \<Rightarrow> bool" where
  "storable cls JNull = True"
| "storable cls (JObject c r) = (cls = Some c)"
| "storable cls (JString str) = (cls = Some ''java/lang/String'')"
| "storable cls v = False"

fun SetObjectArrayElement :: "jvalue \<Rightarrow> nat \<Rightarrow> jvalue \<Rightarrow> jvalue" where
  "SetObjectArrayElement (JObjectArray cls elems) i v =
     (if i < length elems \<and> storable cls v then JObjectArray cls (elems[i := v])
      else JObjectArray cls elems)"
| "SetObjectArrayElement array i v = array"

text \<open>What a callback ends with: how it ended and the calls it made.\<close>

type_synonym callback_result = "outcome \<times> event list"

section \<open>Vendor binding: \<^verbatim>\<open>get_link_key_callback\<close>\<close>

text \<open>
  The conversion \<^verbatim>\<open>%02X\<close> of \<^verbatim>\<open>snprintf\<close> on a byte promoted to \<^verbatim>\<open>int\<close>: its value
  in base 16 with the digits \<^verbatim>\<open>0123456789ABCDEF\<close>, zero-padded to two digits. A byte is
  below 256, so there are never more than two.
\<close>

definition hex_digits :: string where
  "hex_digits = ''0123456789ABCDEF''"

definition fmt_02X :: "uint8_t \<Rightarrow> string" where
  "fmt_02X b = [hex_digits ! (unat b div 16), hex_digits ! (unat b mod 16)]"

text \<open>
  \<^verbatim>\<open>LINK_KEY\<close> is an array of 16 bytes; the format string has sixteen \<^verbatim>\<open>%02X\<close> for
  \<^verbatim>\<open>link_key[0]\<close> to \<^verbatim>\<open>link_key[15]\<close>, and the 33 bytes written fit the buffer of 128.
\<close>

definition c_linkkey :: "uint8_t list \<Rightarrow> string" where
  "c_linkkey link_key = concat (map (\<lambda>i. fmt_02X (link_key ! i)) [0 ..< 16])"

definition create_link_key_string :: "jni_env \<Rightarrow> uint8_t list \<Rightarrow> jvalue" where
  "create_link_key_string env link_key =
     NewStringUTF env Alloc_linkkey (map of_char (c_linkkey link_key))"

definition get_link_key_callback ::
  "jni_env \<Rightarrow> RawAddress option \<Rightarrow> bool \<Rightarrow> uint8_t list \<Rightarrow> jint \<Rightarrow> callback_result" where
  "get_link_key_callback env bd_addr key_found link_key key_type =
     (if \<not> valid env then (Returned RVoid, [])
      else case bd_addr of
        None \<Rightarrow> (Returned RVoid, [ALOGE ''Address is null in %s''])
      | Some raw \<Rightarrow>
          if \<not> alloc_ok env Alloc_addr
          then (Returned RVoid, [ALOGE ''Address allocation failed in %s''])
          else
            let addr = SetByteArrayRegion (NewByteArray sizeof_RawAddress) 0 sizeof_RawAddress raw;
                linkkey = create_link_key_string env link_key
            in (Returned RVoid,
                [Java ''onGetLinkKey'' [linkkey, JByteArray addr, JBoolean key_found, JInt key_type]]))"

text \<open>
  What "the uppercase hexadecimal encoding" means, read from the other side: the value of
  a digit character, where only \<^verbatim>\<open>0\<close>-\<^verbatim>\<open>9\<close> and \<^verbatim>\<open>A\<close>-\<^verbatim>\<open>F\<close> are digits.
\<close>

definition hex_value :: "char \<Rightarrow> nat option" where
  "hex_value c =
     (let n = (of_char c :: nat)
      in if 48 \<le> n \<and> n \<le> 57 then Some (n - 48)
         else if 65 \<le> n \<and> n \<le> 70 then Some (n - 55)
         else None)"

subsection \<open>The link key as uppercase hexadecimal\<close>

lemma hex_value_digit: "d < 16 \<Longrightarrow> hex_value (hex_digits ! d) = Some d"
proof -
  assume "d < 16"
  then have "d = 0 \<or> d = 1 \<or> d = 2 \<or> d = 3 \<or> d = 4 \<or> d = 5 \<or> d = 6 \<or> d = 7
    \<or> d = 8 \<or> d = 9 \<or> d = 10 \<or> d = 11 \<or> d = 12 \<or> d = 13 \<or> d = 14 \<or> d = 15"
    by presburger
  then show ?thesis
    by (elim disjE) (simp_all add: hex_value_def hex_digits_def Let_def)
qed

lemma length_concat_pairs: "length (concat (map (\<lambda>j. [f j, g j]) [0 ..< n])) = 2 * n"
  by (induction n) simp_all

lemma concat_pairs_nth:
  "i < n \<Longrightarrow> concat (map (\<lambda>j. [f j, g j]) [0 ..< n]) ! (2 * i) = f i \<and>
              concat (map (\<lambda>j. [f j, g j]) [0 ..< n]) ! (2 * i + 1) = g i"
proof (induction n)
  case 0
  then show ?case by simp
next
  case (Suc n)
  show ?case
  proof (cases "i < n")
    case True
    with Suc.IH show ?thesis
      by (simp add: nth_append length_concat_pairs)
  next
    case False
    with Suc.prems have "i = n" by simp
    then show ?thesis
      by (simp add: nth_append length_concat_pairs)
  qed
qed

lemma unat_byte_div16: "unat (b :: uint8_t) div 16 < 16"
proof -
  have "unat b < 256" using unsigned_less [of b, where ?'a = nat] by simp
  then show ?thesis by simp
qed

lemma c_linkkey_length: "length (c_linkkey link_key) = 32"
  by (simp add: c_linkkey_def fmt_02X_def length_concat_pairs)

lemma c_linkkey_digits:
  assumes "i < 16"
  shows "hex_value (c_linkkey link_key ! (2 * i)) = Some (unat (link_key ! i) div 16)"
    and "hex_value (c_linkkey link_key ! (2 * i + 1)) = Some (unat (link_key ! i) mod 16)"
  using concat_pairs_nth [OF assms, of "\<lambda>j. hex_digits ! (unat (link_key ! j) div 16)"
      "\<lambda>j. hex_digits ! (unat (link_key ! j) mod 16)"]
  by (simp_all add: c_linkkey_def fmt_02X_def hex_value_digit unat_byte_div16)

lemma set_whole_region: "length buf = n \<Longrightarrow> SetByteArrayRegion (NewByteArray n) 0 n buf = buf"
  by (simp add: SetByteArrayRegion_def NewByteArray_def)

text \<open>
  Claim C10. With a null \<^verbatim>\<open>bd_addr\<close> the callback makes no Java call. Otherwise, when
  the callback environment is valid and the address array is allocated, it calls
  \<^verbatim>\<open>onGetLinkKey\<close> once with the result of \<^verbatim>\<open>create_link_key_string\<close>, the six
  address bytes and the two flags, and makes no Java call in the other cases. The text
  formatted by \<^verbatim>\<open>create_link_key_string\<close> has 32 characters, and for a 16-byte key its
  characters \<open>2i\<close> and \<open>2i+1\<close> are the uppercase hexadecimal digits of the high and low
  half of byte \<open>i\<close>; \<^verbatim>\<open>NewStringUTF\<close> turns exactly that text into the Java string.
\<close>

theorem link_key_delivered_as_upper_hex:
  "java_calls (snd (get_link_key_callback env None key_found link_key key_type)) = [] \<and>
   java_calls (snd (get_link_key_callback env (Some raw) key_found link_key key_type)) =
     (if valid env \<and> alloc_ok env Alloc_addr
      then [(''onGetLinkKey'',
             [create_link_key_string env link_key,
              JByteArray (SetByteArrayRegion (NewByteArray sizeof_RawAddress) 0 sizeof_RawAddress raw),
              JBoolean key_found, JInt key_type])]
      else []) \<and>
   (length raw = sizeof_RawAddress \<longrightarrow>
      SetByteArrayRegion (NewByteArray sizeof_RawAddress) 0 sizeof_RawAddress raw = raw) \<and>
   (alloc_ok env Alloc_linkkey \<longrightarrow>
      create_link_key_string env link_key = JString (map of_char (c_linkkey link_key))) \<and>
   length (c_linkkey link_key) = 32 \<and>
   (length link_key = 16 \<longrightarrow>
      (\<forall>i < length link_key.
         hex_value (c_linkkey link_key ! (2 * i)) = Some (unat (link_key ! i) div 16) \<and>
         hex_value (c_linkkey link_key ! (2 * i + 1)) = Some (unat (link_key ! i) mod 16)))"
proof (intro conjI impI allI)
  show "java_calls (snd (get_link_key_callback env None key_found link_key key_type)) = []"
    by (simp add: get_link_key_callback_def)
  show "java_calls (snd (get_link_key_callback env (Some raw) key_found link_key key_type)) =
     (if valid env \<and> alloc_ok env Alloc_addr
      then [(''onGetLinkKey'',
             [create_link_key_string env link_key,
              JByteArray (SetByteArrayRegion (NewByteArray sizeof_RawAddress) 0 sizeof_RawAddress raw),
              JBoolean key_found, JInt key_type])]
      else [])"
    by (simp add: get_link_key_callback_def Let_def)
  show "SetByteArrayRegion (NewByteArray sizeof_RawAddress) 0 sizeof_RawAddress raw = raw"
    if "length raw = sizeof_RawAddress"
    using that by (rule set_whole_region)
  show "create_link_key_string env link_key = JString (map of_char (c_linkkey link_key))"
    if "alloc_ok env Alloc_linkkey"
    using that by (simp add: create_link_key_string_def NewStringUTF_def)
  show "length (c_linkkey link_key) = 32" by (rule c_linkkey_length)
  fix i
  assume "length link_key = 16" and "i < length link_key"
  then have i: "i < 16" by simp
  show "hex_value (c_linkkey link_key ! (2 * i)) = Some (unat (link_key ! i) div 16)"
    using i by (rule c_linkkey_digits)
  show "hex_value (c_linkkey link_key ! (2 * i + 1)) = Some (unat (link_key ! i) mod 16)"
    using i by (rule c_linkkey_digits)
qed


text \<open>A key with a byte of every shape: leading zero digit, letters, both extremes.\<close>

definition example_link_key :: "uint8_t list" where
  "example_link_key =
     [0x00, 0x01, 0x0A, 0x0F, 0x10, 0x1F, 0x7F, 0x80, 0x9A, 0xAB, 0xBC, 0xCD, 0xDE, 0xEF, 0xF0, 0xFF]"

theorem link_key_delivered_as_upper_hex_witness:
  "length example_link_key = 16 \<and>
   java_calls (snd (get_link_key_callback jni_all_ok (Some [1, 2, 3, 4, 5, 6]) True example_link_key 4)) =
     [(''onGetLinkKey'',
       [JString (map of_char ''00010A0F101F7F809AABBCCDDEEFF0FF''), JByteArray [1, 2, 3, 4, 5, 6],
        JBoolean True, JInt 4])] \<and>
   hex_value (c_linkkey example_link_key ! 18) = Some 10 \<and>
   hex_value (c_linkkey example_link_key ! 19) = Some 11"
proof -
  note t = link_key_delivered_as_upper_hex
    [of jni_all_ok True example_link_key 4 "[1, 2, 3, 4, 5, 6]"]
  have l: "length example_link_key = 16"
    by (simp add: example_link_key_def)
  have v: "valid jni_all_ok \<and> alloc_ok jni_all_ok Alloc_addr \<and> alloc_ok jni_all_ok Alloc_linkkey"
    by (simp add: jni_all_ok_def)
  have r: "length [1, 2, 3, 4, 5, 6 :: uint8_t] = sizeof_RawAddress"
    by (simp add: sizeof_RawAddress_def)
  have c: "c_linkkey example_link_key = ''00010A0F101F7F809AABBCCDDEEFF0FF''"
    by code_simp
  from t l have q: "\<forall>i < length example_link_key.
      hex_value (c_linkkey example_link_key ! (2 * i)) = Some (unat (example_link_key ! i) div 16) \<and>
      hex_value (c_linkkey example_link_key ! (2 * i + 1)) = Some (unat (example_link_key ! i) mod 16)"
    by blast
  have n: "9 < length example_link_key" using l by simp
  from q [rule_format, OF n]
  have "hex_value (c_linkkey example_link_key ! (2 * 9)) = Some (unat (example_link_key ! 9) div 16) \<and>
      hex_value (c_linkkey example_link_key ! (2 * 9 + 1)) = Some (unat (example_link_key ! 9) mod 16)" .
  then have d: "hex_value (c_linkkey example_link_key ! 18) = Some 10 \<and>
      hex_value (c_linkkey example_link_key ! 19) = Some 11"
    by (simp add: example_link_key_def)
  from t v r have "java_calls (snd (get_link_key_callback jni_all_ok (Some [1, 2, 3, 4, 5, 6]) True
        example_link_key 4)) =
     [(''onGetLinkKey'',
       [JString (map of_char (c_linkkey example_link_key)), JByteArray [1, 2, 3, 4, 5, 6],
        JBoolean True, JInt 4])]"
    by simp
  with c l d show ?thesis by simp
qed

section \<open>AVRCP controller: player application setting callbacks\<close>

text \<open>
  The HAL structures, with the fields the callbacks read. A fixed-size array member is the
  list of its bytes. (\<^verbatim>\<open>hardware/bt_rc.h\<close> is not part of the sources; the field widths are
  the ones the casts in the callbacks rely on.) The fields of
  \<^verbatim>\<open>btrc_player_settings_t\<close> carry a prime, their names being those of parameters.
\<close>

record btrc_player_app_attr_t =
  attr_id :: uint8_t
  num_val :: uint8_t
  attr_val :: "uint8_t list"

record btrc_player_settings_t =
  num_attr' :: uint8_t
  attr_ids' :: "uint8_t list"
  attr_values' :: "uint8_t list"

text \<open>
  The first loop of \<^verbatim>\<open>btavrcp_playerapplicationsetting_callback\<close>:
  \<^verbatim>\<open>for (int i = 0; i < num_attr; i++) arraylen += 2 + app_attrs[i].num_val;\<close>
  \<open>None\<close> is a read past the end of \<^verbatim>\<open>app_attrs\<close>.
\<close>

function arraylen_loop :: "nat \<Rightarrow> btrc_player_app_attr_t list \<Rightarrow> nat \<Rightarrow> nat \<Rightarrow> nat option" where
  "arraylen_loop n app_attrs i arraylen =
     (if i < n
      then (if i < length app_attrs
            then arraylen_loop n app_attrs (Suc i) (arraylen + (2 + unat (num_val (app_attrs ! i))))
            else None)
      else Some arraylen)"
  by pat_completeness auto
termination
  by (relation "measure (\<lambda>(n, app_attrs, i, arraylen). n - i)") auto

text \<open>
  The second loop, \<^verbatim>\<open>for (int i = 0, k = 0; (i < num_attr) && (k < arraylen); i++)\<close>, writes
  the id, the count and \<^verbatim>\<open>num_val\<close> bytes of \<^verbatim>\<open>attr_val\<close> at \<open>k\<close>. \<open>None\<close> is a read
  past the end of \<^verbatim>\<open>app_attrs\<close> or of \<^verbatim>\<open>attr_val\<close>.
\<close>

function playerattribs_loop ::
  "nat \<Rightarrow> nat \<Rightarrow> btrc_player_app_attr_t list \<Rightarrow> nat \<Rightarrow> nat \<Rightarrow> jbyte list \<Rightarrow> jbyte list option" where
  "playerattribs_loop n arraylen app_attrs i k playerattribs =
     (if i < n \<and> k < arraylen
      then (if i < length app_attrs \<and>
               unat (num_val (app_attrs ! i)) \<le> length (attr_val (app_attrs ! i))
            then
              let a = app_attrs ! i;
                  arr1 = SetByteArrayRegion playerattribs k 1 [attr_id a];
                  arr2 = SetByteArrayRegion arr1 (k + 1) 1 [num_val a];
                  arr3 = SetByteArrayRegion arr2 (k + 2) (unat (num_val a)) (attr_val a)
              in playerattribs_loop n arraylen app_attrs (Suc i) (k + 2 + unat (num_val a)) arr3
            else None)
      else Some playerattribs)"
  by pat_completeness auto
termination
  by (relation "measure (\<lambda>(n, arraylen, app_attrs, i, k, playerattribs). n - i)") auto

definition btavrcp_playerapplicationsetting_callback ::
  "jni_env \<Rightarrow> RawAddress \<Rightarrow> uint8_t \<Rightarrow> btrc_player_app_attr_t list \<Rightarrow> uint8_t \<Rightarrow> 'ext list \<Rightarrow>
   callback_result" where
  "btavrcp_playerapplicationsetting_callback env bd_addr num_attr app_attrs num_ext_attr ext_attrs =
     (if \<not> valid env then (Returned RVoid, [])
      else if \<not> alloc_ok env Alloc_addr
      then (Returned RVoid, [ALOGE ''Fail to new jbyteArray bd addr ''])
      else
        let addr = SetByteArrayRegion (NewByteArray sizeof_RawAddress) 0 sizeof_RawAddress bd_addr
        in case arraylen_loop (unat num_attr) app_attrs 0 0 of
             None \<Rightarrow> (OutOfBounds, [])
           | Some arraylen \<Rightarrow>
               if \<not> alloc_ok env Alloc_playerattribs
               then (Returned RVoid, [ALOGE ''Fail to new jbyteArray playerattribs ''])
               else
                 (case playerattribs_loop (unat num_attr) arraylen app_attrs 0 0
                         (NewByteArray arraylen) of
                    None \<Rightarrow> (OutOfBounds, [])
                  | Some playerattribs \<Rightarrow>
                      (Returned RVoid,
                       [Java ''handlePlayerAppSetting''
                          [JByteArray addr, JByteArray playerattribs, JInt (of_nat arraylen)]])))"

text \<open>
  \<^verbatim>\<open>btavrcp_playerapplicationsetting_changed_callback\<close>: \<^verbatim>\<open>arraylen = p_vals->num_attr * 2\<close>
  and the loop writes \<^verbatim>\<open>attr_ids[i]\<close> and \<^verbatim>\<open>attr_values[i]\<close>.
\<close>

function changed_loop ::
  "nat \<Rightarrow> nat \<Rightarrow> btrc_player_settings_t \<Rightarrow> nat \<Rightarrow> nat \<Rightarrow> jbyte list \<Rightarrow> jbyte list option" where
  "changed_loop n arraylen p_vals i k playerattribs =
     (if i < n \<and> k < arraylen
      then (if i < length (attr_ids' p_vals) \<and> i < length (attr_values' p_vals)
            then
              let arr1 = SetByteArrayRegion playerattribs k 1 [attr_ids' p_vals ! i];
                  arr2 = SetByteArrayRegion arr1 (k + 1) 1 [attr_values' p_vals ! i]
              in changed_loop n arraylen p_vals (Suc i) (k + 2) arr2
            else None)
      else Some playerattribs)"
  by pat_completeness auto
termination
  by (relation "measure (\<lambda>(n, arraylen, p_vals, i, k, playerattribs). n - i)") auto

definition btavrcp_playerapplicationsetting_changed_callback ::
  "jni_env \<Rightarrow> RawAddress \<Rightarrow> btrc_player_settings_t \<Rightarrow> callback_result" where
  "btavrcp_playerapplicationsetting_changed_callback env bd_addr p_vals =
     (if \<not> valid env then (Returned RVoid, [])
      else if \<not> alloc_ok env Alloc_addr
      then (Returned RVoid, [ALOGE ''Fail to get new array ''])
      else
        let addr = SetByteArrayRegion (NewByteArray sizeof_RawAddress) 0 sizeof_RawAddress bd_addr;
            arraylen = unat (num_attr' p_vals) * 2
        in if \<not> alloc_ok env Alloc_playerattribs
           then (Returned RVoid, [ALOGE ''Fail to new jbyteArray playerattribs ''])
           else
             (case changed_loop (unat (num_attr' p_vals)) arraylen p_vals 0 0
                     (NewByteArray arraylen) of
                None \<Rightarrow> (OutOfBounds, [])
              | Some playerattribs \<Rightarrow>
                  (Returned RVoid,
                   [Java ''onPlayerAppSettingChanged''
                      [JByteArray addr, JByteArray playerattribs, JInt (of_nat arraylen)]])))"

text \<open>
  The byte sequences the flattening is meant to produce: per attribute the id, the number
  of values and that many value bytes; per changed setting the id and the value.
\<close>

definition flattened_app_attrs :: "btrc_player_app_attr_t list \<Rightarrow> uint8_t list" where
  "flattened_app_attrs attrs =
     concat (map (\<lambda>a. attr_id a # num_val a # take (unat (num_val a)) (attr_val a)) attrs)"

definition flattened_settings :: "btrc_player_settings_t \<Rightarrow> uint8_t list" where
  "flattened_settings p_vals =
     concat (map (\<lambda>i. [attr_ids' p_vals ! i, attr_values' p_vals ! i])
       [0 ..< unat (num_attr' p_vals)])"

subsection \<open>The flattened arrays are the concatenation of the native values\<close>

declare arraylen_loop.simps [simp del] playerattribs_loop.simps [simp del] changed_loop.simps [simp del]

lemma length_SetByteArrayRegion:
  "len \<le> length buf \<Longrightarrow> length (SetByteArrayRegion array start len buf) = length array"
  by (simp add: SetByteArrayRegion_def)

lemma take_SetByteArrayRegion:
  "start + len \<le> length array \<Longrightarrow> len \<le> length buf \<Longrightarrow>
   take (start + len) (SetByteArrayRegion array start len buf) = take start array @ take len buf"
  by (simp add: SetByteArrayRegion_def)

lemma arraylen_loop_sum:
  "n \<le> length app_attrs \<Longrightarrow> i \<le> n \<Longrightarrow>
   arraylen_loop n app_attrs i arraylen =
     Some (arraylen + (\<Sum>a\<leftarrow>drop i (take n app_attrs). 2 + unat (num_val a)))"
proof (induction n app_attrs i arraylen rule: arraylen_loop.induct)
  case (1 n app_attrs i arraylen)
  show ?case
  proof (cases "i < n")
    case True
    with "1.prems" have il: "i < length app_attrs" by simp
    from True "1.prems" have d: "drop i (take n app_attrs) = app_attrs ! i # drop (Suc i) (take n app_attrs)"
      by (simp add: Cons_nth_drop_Suc [symmetric])
    from True il "1.prems" have
      "arraylen_loop n app_attrs (Suc i) (arraylen + (2 + unat (num_val (app_attrs ! i)))) =
       Some (arraylen + (2 + unat (num_val (app_attrs ! i))) +
             (\<Sum>a\<leftarrow>drop (Suc i) (take n app_attrs). 2 + unat (num_val a)))"
      by (intro "1.IH") simp_all
    with True il d show ?thesis
      by (subst arraylen_loop.simps) simp
  next
    case False
    with "1.prems" have "i = n" by simp
    then show ?thesis
      by (subst arraylen_loop.simps) simp
  qed
qed

lemma length_flattened_app_attrs:
  "\<forall>a \<in> set attrs. unat (num_val a) \<le> length (attr_val a) \<Longrightarrow>
   length (flattened_app_attrs attrs) = (\<Sum>a\<leftarrow>attrs. 2 + unat (num_val a))"
  by (induction attrs) (simp_all add: flattened_app_attrs_def)

lemma flattened_app_attrs_Cons:
  "flattened_app_attrs (a # attrs) =
     attr_id a # num_val a # take (unat (num_val a)) (attr_val a) @ flattened_app_attrs attrs"
  by (simp add: flattened_app_attrs_def)

lemma playerattribs_loop_flat:
  "n \<le> length app_attrs \<Longrightarrow> i \<le> n \<Longrightarrow>
   \<forall>a \<in> set (take n app_attrs). unat (num_val a) \<le> length (attr_val a) \<Longrightarrow>
   length playerattribs = arraylen \<Longrightarrow>
   k + length (flattened_app_attrs (drop i (take n app_attrs))) = arraylen \<Longrightarrow>
   playerattribs_loop n arraylen app_attrs i k playerattribs =
     Some (take k playerattribs @ flattened_app_attrs (drop i (take n app_attrs)))"
proof (induction n arraylen app_attrs i k playerattribs rule: playerattribs_loop.induct)
  case (1 n arraylen app_attrs i k playerattribs)
  show ?case
  proof (cases "i < n")
    case False
    with "1.prems" have "i = n" by simp
    with "1.prems" show ?thesis
      by (subst playerattribs_loop.simps) (simp add: flattened_app_attrs_def)
  next
    case True
    define a where "a = app_attrs ! i"
    define nv where "nv = unat (num_val a)"
    define rest where "rest = drop (Suc i) (take n app_attrs)"
    from True "1.prems" have il: "i < length app_attrs" by simp
    from True "1.prems" have d: "drop i (take n app_attrs) = a # rest"
      by (simp add: Cons_nth_drop_Suc [symmetric] a_def rest_def)
    from True il have "a \<in> set (take n app_attrs)"
      by (auto simp add: a_def in_set_conv_nth intro!: exI [of _ i])
    with "1.prems" have nvl: "nv \<le> length (attr_val a)" by (simp add: nv_def)
    from "1.prems" d nvl have len: "k + 2 + nv + length (flattened_app_attrs rest) = arraylen"
      by (simp add: flattened_app_attrs_Cons nv_def)
    then have kl: "k < arraylen" by simp
    define arr1 where "arr1 = SetByteArrayRegion playerattribs k 1 [attr_id a]"
    define arr2 where "arr2 = SetByteArrayRegion arr1 (k + 1) 1 [num_val a]"
    define arr3 where "arr3 = SetByteArrayRegion arr2 (k + 2) nv (attr_val a)"
    have l1: "length arr1 = arraylen" using "1.prems" by (simp add: arr1_def length_SetByteArrayRegion)
    have l2: "length arr2 = arraylen" using l1 by (simp add: arr2_def length_SetByteArrayRegion)
    have l3: "length arr3 = arraylen" using l2 nvl by (simp add: arr3_def length_SetByteArrayRegion)
    have t1: "take (k + 1) arr1 = take k playerattribs @ [attr_id a]"
      unfolding arr1_def using "1.prems" len
      by (subst take_SetByteArrayRegion) simp_all
    have t2: "take (k + 1 + 1) arr2 = take (k + 1) arr1 @ [num_val a]"
      unfolding arr2_def using l1 len
      by (subst take_SetByteArrayRegion) simp_all
    have t3: "take (k + 2 + nv) arr3 = take (k + 2) arr2 @ take nv (attr_val a)"
      unfolding arr3_def using l2 len nvl
      by (subst take_SetByteArrayRegion) simp_all
    from t1 t2 t3 have t: "take (k + 2 + nv) arr3 =
        take k playerattribs @ attr_id a # num_val a # take nv (attr_val a)"
      by simp
    have c1: "i < n \<and> k < arraylen" using True kl by simp
    have c2: "i < length app_attrs \<and> unat (num_val (app_attrs ! i)) \<le> length (attr_val (app_attrs ! i))"
      using il nvl by (simp add: a_def nv_def)
    note IH = "1.IH" [OF c1 c2 refl refl refl refl, folded a_def, folded nv_def, folded arr1_def,
        folded arr2_def, folded arr3_def, folded rest_def]
    have ih: "playerattribs_loop n arraylen app_attrs (Suc i) (k + 2 + nv) arr3 =
        Some (take (k + 2 + nv) arr3 @ flattened_app_attrs rest)"
      using "1.prems" True l3 len by (intro IH) simp_all
    have step: "playerattribs_loop n arraylen app_attrs i k playerattribs =
        playerattribs_loop n arraylen app_attrs (Suc i) (k + 2 + nv) arr3"
      apply (subst playerattribs_loop.simps)
      using c1 c2 by (simp add: Let_def a_def nv_def arr1_def arr2_def arr3_def)
    from step ih t d show ?thesis
      by (simp add: flattened_app_attrs_Cons nv_def)
  qed
qed


lemma changed_loop_flat:
  "n \<le> length (attr_ids' p_vals) \<Longrightarrow> n \<le> length (attr_values' p_vals) \<Longrightarrow> i \<le> n \<Longrightarrow>
   length playerattribs = arraylen \<Longrightarrow> k + 2 * (n - i) = arraylen \<Longrightarrow>
   changed_loop n arraylen p_vals i k playerattribs =
     Some (take k playerattribs @
           concat (map (\<lambda>j. [attr_ids' p_vals ! j, attr_values' p_vals ! j]) [i ..< n]))"
proof (induction n arraylen p_vals i k playerattribs rule: changed_loop.induct)
  case (1 n arraylen p_vals i k playerattribs)
  show ?case
  proof (cases "i < n")
    case False
    with "1.prems" have "i = n" by simp
    with "1.prems" show ?thesis
      by (subst changed_loop.simps) simp
  next
    case True
    define arr1 where "arr1 = SetByteArrayRegion playerattribs k 1 [attr_ids' p_vals ! i]"
    define arr2 where "arr2 = SetByteArrayRegion arr1 (k + 1) 1 [attr_values' p_vals ! i]"
    from True "1.prems" have len: "k + 2 + 2 * (n - Suc i) = arraylen" by simp
    have c1: "i < n \<and> k < arraylen" using True len by simp
    have c2: "i < length (attr_ids' p_vals) \<and> i < length (attr_values' p_vals)"
      using True "1.prems" by simp
    have l1: "length arr1 = arraylen" using "1.prems" by (simp add: arr1_def length_SetByteArrayRegion)
    have l2: "length arr2 = arraylen" using l1 by (simp add: arr2_def length_SetByteArrayRegion)
    have t1: "take (k + 1) arr1 = take k playerattribs @ [attr_ids' p_vals ! i]"
      unfolding arr1_def using "1.prems" len
      by (subst take_SetByteArrayRegion) simp_all
    have t2: "take (k + 1 + 1) arr2 = take (k + 1) arr1 @ [attr_values' p_vals ! i]"
      unfolding arr2_def using l1 len
      by (subst take_SetByteArrayRegion) simp_all
    from t1 t2 have t: "take (k + 2) arr2 =
        take k playerattribs @ [attr_ids' p_vals ! i, attr_values' p_vals ! i]"
      by simp
    note IH = "1.IH" [OF c1 c2 refl refl, folded arr1_def, folded arr2_def]
    have ih: "changed_loop n arraylen p_vals (Suc i) (k + 2) arr2 =
        Some (take (k + 2) arr2 @
              concat (map (\<lambda>j. [attr_ids' p_vals ! j, attr_values' p_vals ! j]) [Suc i ..< n]))"
      using "1.prems" True l2 len by (intro IH) simp_all
    have step: "changed_loop n arraylen p_vals i k playerattribs =
        changed_loop n arraylen p_vals (Suc i) (k + 2) arr2"
      apply (subst changed_loop.simps)
      using c1 c2 by (simp add: Let_def arr1_def arr2_def)
    from step ih t True show ?thesis
      by (simp add: upt_conv_Cons)
  qed
qed

lemma sum_num_val_bound: "(\<Sum>a\<leftarrow>attrs. 2 + unat (num_val a)) \<le> 257 * length attrs"
proof (induction attrs)
  case Nil
  show ?case by simp
next
  case (Cons a attrs)
  have "unat (num_val a) < 256" using unsigned_less [of "num_val a", where ?'a = nat] by simp
  with Cons show ?case by simp
qed

lemma unat_byte_le: "unat (b :: uint8_t) \<le> 255"
  using unsigned_less [of b, where ?'a = nat] by simp

lemma sint_jint_of_nat: "n < 2 ^ 31 \<Longrightarrow> sint (of_nat n :: jint) = int n"
  by (simp add: signed_of_nat signed_take_bit_int_eq_self)


text \<open>
  Claim C3. Let the HAL structures be well formed: \<^verbatim>\<open>app_attrs\<close> has at least
  \<^verbatim>\<open>num_attr\<close> entries, every \<^verbatim>\<open>num_val\<close> is within its \<^verbatim>\<open>attr_val\<close> array, and the
  id and value arrays of \<^verbatim>\<open>p_vals\<close> hold \<^verbatim>\<open>num_attr\<close> entries. Then, unless the
  environment is invalid or an allocation fails (in which case no Java method is called),
  \<^verbatim>\<open>btavrcp_playerapplicationsetting_callback\<close> calls \<^verbatim>\<open>handlePlayerAppSetting\<close> with
  the address bytes, the byte array that is the concatenation over the attributes of id,
  count and value bytes, and its length, which is the sum of \<open>2 + num_val\<close> and fits a
  \<^verbatim>\<open>jint\<close>; and \<^verbatim>\<open>btavrcp_playerapplicationsetting_changed_callback\<close> calls
  \<^verbatim>\<open>onPlayerAppSettingChanged\<close> with the address bytes, the concatenation of the
  (id, value) pairs, and its length \<open>2 * num_attr\<close>. The second loop's guard
  \<open>k < arraylen\<close> never cuts the copy short.
\<close>

theorem player_app_settings_flattened:
  assumes "length bd_addr = sizeof_RawAddress"
    and "unat num_attr \<le> length app_attrs"
    and "\<forall>a \<in> set (take (unat num_attr) app_attrs). unat (num_val a) \<le> length (attr_val a)"
    and "unat (num_attr' p_vals) \<le> length (attr_ids' p_vals)"
    and "unat (num_attr' p_vals) \<le> length (attr_values' p_vals)"
  shows
   "btavrcp_playerapplicationsetting_callback env bd_addr num_attr app_attrs num_ext_attr ext_attrs =
      (Returned RVoid,
       if \<not> valid env then []
       else if \<not> alloc_ok env Alloc_addr then [ALOGE ''Fail to new jbyteArray bd addr '']
       else if \<not> alloc_ok env Alloc_playerattribs
       then [ALOGE ''Fail to new jbyteArray playerattribs '']
       else [Java ''handlePlayerAppSetting''
               [JByteArray bd_addr,
                JByteArray (flattened_app_attrs (take (unat num_attr) app_attrs)),
                JInt (of_nat (length (flattened_app_attrs (take (unat num_attr) app_attrs))))]]) \<and>
    length (flattened_app_attrs (take (unat num_attr) app_attrs)) =
      (\<Sum>a\<leftarrow>take (unat num_attr) app_attrs. 2 + unat (num_val a)) \<and>
    sint (of_nat (length (flattened_app_attrs (take (unat num_attr) app_attrs))) :: jint) =
      int (length (flattened_app_attrs (take (unat num_attr) app_attrs))) \<and>
    btavrcp_playerapplicationsetting_changed_callback env bd_addr p_vals =
      (Returned RVoid,
       if \<not> valid env then []
       else if \<not> alloc_ok env Alloc_addr then [ALOGE ''Fail to get new array '']
       else if \<not> alloc_ok env Alloc_playerattribs
       then [ALOGE ''Fail to new jbyteArray playerattribs '']
       else [Java ''onPlayerAppSettingChanged''
               [JByteArray bd_addr, JByteArray (flattened_settings p_vals),
                JInt (of_nat (2 * unat (num_attr' p_vals)))]]) \<and>
    length (flattened_settings p_vals) = 2 * unat (num_attr' p_vals)"
proof -
  define n where "n = unat num_attr"
  define flat where "flat = flattened_app_attrs (take n app_attrs)"
  have n255: "n \<le> 255" unfolding n_def by (rule unat_byte_le)
  have len: "length flat = (\<Sum>a\<leftarrow>take n app_attrs. 2 + unat (num_val a))"
    unfolding flat_def using assms(3) by (intro length_flattened_app_attrs) (simp add: n_def)
  have al: "arraylen_loop n app_attrs 0 0 = Some (length flat)"
    using arraylen_loop_sum [of n app_attrs 0 0] assms(2) len by (simp add: n_def)
  have fill: "playerattribs_loop n (length flat) app_attrs 0 0 (NewByteArray (length flat)) = Some flat"
    using playerattribs_loop_flat [of n app_attrs 0 "NewByteArray (length flat)" "length flat" 0]
      assms(2,3)
    by (simp add: n_def flat_def NewByteArray_def)
  have addr: "SetByteArrayRegion (NewByteArray sizeof_RawAddress) 0 sizeof_RawAddress bd_addr = bd_addr"
    using assms(1) by (rule set_whole_region)
  have "length flat \<le> 257 * length (take n app_attrs)"
    unfolding len by (rule sum_num_val_bound)
  also have "\<dots> \<le> 257 * 255" using n255 by simp
  finally have "length flat < 2 ^ 31" by simp
  then have nowrap: "sint (of_nat (length flat) :: jint) = int (length flat)"
    by (rule sint_jint_of_nat)
  have first: "btavrcp_playerapplicationsetting_callback env bd_addr num_attr app_attrs num_ext_attr ext_attrs =
      (Returned RVoid,
       if \<not> valid env then []
       else if \<not> alloc_ok env Alloc_addr then [ALOGE ''Fail to new jbyteArray bd addr '']
       else if \<not> alloc_ok env Alloc_playerattribs
       then [ALOGE ''Fail to new jbyteArray playerattribs '']
       else [Java ''handlePlayerAppSetting''
               [JByteArray bd_addr, JByteArray flat, JInt (of_nat (length flat))]])"
    by (simp add: btavrcp_playerapplicationsetting_callback_def n_def [symmetric] al fill addr)
  define m where "m = unat (num_attr' p_vals)"
  have fill2: "changed_loop m (m * 2) p_vals 0 0 (NewByteArray (m * 2)) = Some (flattened_settings p_vals)"
    using changed_loop_flat [of m p_vals 0 "NewByteArray (m * 2)" "m * 2" 0] assms(4,5)
    by (simp add: m_def flattened_settings_def NewByteArray_def)
  have second: "btavrcp_playerapplicationsetting_changed_callback env bd_addr p_vals =
      (Returned RVoid,
       if \<not> valid env then []
       else if \<not> alloc_ok env Alloc_addr then [ALOGE ''Fail to get new array '']
       else if \<not> alloc_ok env Alloc_playerattribs
       then [ALOGE ''Fail to new jbyteArray playerattribs '']
       else [Java ''onPlayerAppSettingChanged''
               [JByteArray bd_addr, JByteArray (flattened_settings p_vals), JInt (of_nat (2 * m))]])"
    by (simp add: btavrcp_playerapplicationsetting_changed_callback_def Let_def m_def [symmetric]
          fill2 addr mult.commute)
  have len2: "length (flattened_settings p_vals) = 2 * m"
    by (simp add: flattened_settings_def m_def length_concat_pairs)
  from first len nowrap second len2 show ?thesis
    by (simp add: flat_def n_def m_def)
qed

text \<open>Three attributes with two, no and three values; two changed settings.\<close>

definition example_app_attrs :: "btrc_player_app_attr_t list" where
  "example_app_attrs =
     [\<lparr> attr_id = 1, num_val = 2, attr_val = [1, 2, 0, 0] \<rparr>,
      \<lparr> attr_id = 3, num_val = 0, attr_val = [0, 0, 0, 0] \<rparr>,
      \<lparr> attr_id = 2, num_val = 3, attr_val = [1, 2, 3, 0] \<rparr>]"

definition example_settings :: btrc_player_settings_t where
  "example_settings = \<lparr> num_attr' = 2, attr_ids' = [1, 2, 0, 0], attr_values' = [2, 3, 0, 0] \<rparr>"

theorem player_app_settings_flattened_witness:
  "btavrcp_playerapplicationsetting_callback jni_all_ok [1, 2, 3, 4, 5, 6] 3 example_app_attrs 0
      ([] :: unit list) =
     (Returned RVoid,
      [Java ''handlePlayerAppSetting''
         [JByteArray [1, 2, 3, 4, 5, 6], JByteArray [1, 2, 1, 2, 3, 0, 2, 3, 1, 2, 3], JInt 11]]) \<and>
   btavrcp_playerapplicationsetting_changed_callback jni_all_ok [1, 2, 3, 4, 5, 6] example_settings =
     (Returned RVoid,
      [Java ''onPlayerAppSettingChanged''
         [JByteArray [1, 2, 3, 4, 5, 6], JByteArray [1, 2, 2, 3], JInt 4]])"
proof -
  have h1: "length [1, 2, 3, 4, 5, 6 :: uint8_t] = sizeof_RawAddress"
    by (simp add: sizeof_RawAddress_def)
  have h2: "unat (3 :: uint8_t) \<le> length example_app_attrs"
    by (simp add: example_app_attrs_def)
  have h3: "\<forall>a \<in> set (take (unat (3 :: uint8_t)) example_app_attrs). unat (num_val a) \<le> length (attr_val a)"
    by (simp add: example_app_attrs_def)
  have h4: "unat (num_attr' example_settings) \<le> length (attr_ids' example_settings)"
    by (simp add: example_settings_def)
  have h5: "unat (num_attr' example_settings) \<le> length (attr_values' example_settings)"
    by (simp add: example_settings_def)
  have f1: "flattened_app_attrs (take 3 example_app_attrs) = [1, 2, 1, 2, 3, 0, 2, 3, 1, 2, 3]"
    by (simp add: flattened_app_attrs_def example_app_attrs_def)
  have f2: "flattened_settings example_settings = [1, 2, 2, 3]"
    by (simp add: flattened_settings_def example_settings_def upt_rec)
  have n2: "num_attr' example_settings = 2"
    by (simp add: example_settings_def)
  have v: "valid jni_all_ok \<and> alloc_ok jni_all_ok Alloc_addr \<and> alloc_ok jni_all_ok Alloc_playerattribs"
    by (simp add: jni_all_ok_def)
  from player_app_settings_flattened [OF h1 h2 h3 h4 h5, of jni_all_ok 0 "[] :: unit list"] v
  show ?thesis
    by (simp add: f1 f2 n2)
qed

section \<open>AVRCP controller: attribute response callbacks\<close>

text \<open>
  \<^verbatim>\<open>btrc_element_attr_val_t\<close>: the callbacks read \<^verbatim>\<open>attr_id\<close> through a \<^verbatim>\<open>jint*\<close>, so
  it is 32 bits wide, and \<^verbatim>\<open>text\<close> as a C string. (The field names carry a prefix here:
  \<open>attr_id\<close> is taken by the player setting structure.)
\<close>

record btrc_element_attr_val_t =
  elem_attr_id :: uint32_t
  elem_text :: "uint8_t list"

definition NewObjectArray :: "jni_env \<Rightarrow> alloc_site \<Rightarrow> nat \<Rightarrow> jclass \<Rightarrow> jvalue" where
  "NewObjectArray env site n cls =
     (if alloc_ok env site then JObjectArray (Some cls) (replicate n JNull) else JNull)"

text \<open>
  How a loop with \<^verbatim>\<open>return\<close> statements in its body ends: it runs to completion, it
  returns from the function (with the lines logged on the way out), or the process dies.
\<close>

datatype 'a flow = Completed 'a | EarlyReturn "event list" | Crashed outcome

text \<open>
  The loop of \<^verbatim>\<open>btavrcp_attr_rsp_callback\<close>: a string that cannot be allocated ends the
  callback; otherwise the id goes to \<open>attribIds[i]\<close> and the string to
  \<open>stringArray[i]\<close>.
\<close>

function attr_rsp_loop ::
  "jni_env \<Rightarrow> nat \<Rightarrow> btrc_element_attr_val_t list \<Rightarrow> nat \<Rightarrow> jint list \<Rightarrow> jvalue \<Rightarrow>
   (jint list \<times> jvalue) flow" where
  "attr_rsp_loop env n p_attrs i attribIds stringArray =
     (if i < n
      then (if i < length p_attrs \<and> c_string (elem_text (p_attrs ! i)) \<noteq> None
            then
              if NewStringUTF env (Alloc_str i) (the (c_string (elem_text (p_attrs ! i)))) = JNull
              then EarlyReturn [ALOGE ''Unable to get str'']
              else attr_rsp_loop env n p_attrs (Suc i)
                     (SetIntArrayRegion attribIds i 1 [elem_attr_id (p_attrs ! i)])
                     (SetObjectArrayElement stringArray i
                        (NewStringUTF env (Alloc_str i) (the (c_string (elem_text (p_attrs ! i))))))
            else Crashed OutOfBounds)
      else Completed (attribIds, stringArray))"
  by pat_completeness auto
termination
  by (relation "measure (\<lambda>(env, n, p_attrs, i, attribIds, stringArray). n - i)") auto

definition btavrcp_attr_rsp_callback ::
  "jni_env \<Rightarrow> RawAddress \<Rightarrow> uint8_t \<Rightarrow> btrc_element_attr_val_t list \<Rightarrow> string \<Rightarrow> callback_result" where
  "btavrcp_attr_rsp_callback env bd_addr num_attr p_attrs method =
     (if \<not> valid env then (Returned RVoid, [])
      else if \<not> alloc_ok env Alloc_addr
      then (Returned RVoid, [ALOGE ''Fail to get new array ''])
      else if \<not> alloc_ok env Alloc_attribIds
      then (Returned RVoid, [ALOGE '' failed to set new array for attribIds''])
      else
        let addr = SetByteArrayRegion (NewByteArray sizeof_RawAddress) 0 sizeof_RawAddress bd_addr
        in case FindClass env ''java/lang/String'' of
             None \<Rightarrow> (JniAbort, [])
           | Some strclazz \<Rightarrow>
               let stringArray = NewObjectArray env Alloc_stringArray (unat num_attr) strclazz
               in if stringArray = JNull
                  then (Returned RVoid, [ALOGE '' failed to get String array''])
                  else
                    (case attr_rsp_loop env (unat num_attr) p_attrs 0
                            (NewIntArray (unat num_attr)) stringArray of
                       Crashed c \<Rightarrow> (c, [])
                     | EarlyReturn tr \<Rightarrow> (Returned RVoid, tr)
                     | Completed (attribIds, strings) \<Rightarrow>
                         (Returned RVoid,
                          [Java method
                             [JByteArray addr, JByte num_attr, JIntArray attribIds, strings]])))"

text \<open>The method ids as \<^verbatim>\<open>classInitNative\<close> binds them.\<close>

definition method_handletrackchanged :: string where
  "method_handletrackchanged = ''onTrackChanged''"

definition method_handleGetElementAttrResp :: string where
  "method_handleGetElementAttrResp = ''onElementAttributeUpdate''"

definition method_handleGetItemAttrResp :: string where
  "method_handleGetItemAttrResp = ''onItemAttributeUpdate''"

definition btavrcp_track_changed_callback ::
  "jni_env \<Rightarrow> RawAddress \<Rightarrow> uint8_t \<Rightarrow> btrc_element_attr_val_t list \<Rightarrow> callback_result" where
  "btavrcp_track_changed_callback env bd_addr num_attr p_attrs =
     btavrcp_attr_rsp_callback env bd_addr num_attr p_attrs method_handletrackchanged"

definition btavrcp_get_elem_attr_rsp_callback ::
  "jni_env \<Rightarrow> RawAddress \<Rightarrow> uint8_t \<Rightarrow> btrc_element_attr_val_t list \<Rightarrow> callback_result" where
  "btavrcp_get_elem_attr_rsp_callback env bd_addr num_attr p_attrs =
     btavrcp_attr_rsp_callback env bd_addr num_attr p_attrs method_handleGetElementAttrResp"

definition btavrcp_get_item_attr_rsp_callback ::
  "jni_env \<Rightarrow> RawAddress \<Rightarrow> uint8_t \<Rightarrow> btrc_element_attr_val_t list \<Rightarrow> callback_result" where
  "btavrcp_get_item_attr_rsp_callback env bd_addr num_attr p_attrs =
     btavrcp_attr_rsp_callback env bd_addr num_attr p_attrs method_handleGetItemAttrResp"

text \<open>The Java string \<^verbatim>\<open>NewStringUTF\<close> builds from a NUL-terminated text field.\<close>

definition utf_string :: "uint8_t list \<Rightarrow> jvalue" where
  "utf_string txt = JString (takeWhile (\<lambda>b. b \<noteq> 0) txt)"

subsection \<open>The arrays of an attribute response\<close>

declare attr_rsp_loop.simps [simp del]

lemma take_SetIntArrayRegion:
  "start + len \<le> length array \<Longrightarrow> len \<le> length buf \<Longrightarrow>
   take (start + len) (SetIntArrayRegion array start len buf) = take start array @ take len buf"
  by (simp add: SetIntArrayRegion_def)

lemma length_SetIntArrayRegion:
  "len \<le> length buf \<Longrightarrow> length (SetIntArrayRegion array start len buf) = length array"
  by (simp add: SetIntArrayRegion_def)

lemma take_Suc_update: "i < length xs \<Longrightarrow> take (Suc i) (xs[i := v]) = take i xs @ [v]"
  by (simp add: take_Suc_conv_app_nth)

lemma attr_rsp_loop_completed:
  "n \<le> length p_attrs \<Longrightarrow> i \<le> n \<Longrightarrow>
   \<forall>a \<in> set (take n p_attrs). 0 \<in> set (elem_text a) \<Longrightarrow>
   \<forall>j. i \<le> j \<and> j < n \<longrightarrow> alloc_ok env (Alloc_str j) \<Longrightarrow>
   length attribIds = n \<Longrightarrow> length strs = n \<Longrightarrow>
   attr_rsp_loop env n p_attrs i attribIds (JObjectArray (Some ''java/lang/String'') strs) =
     Completed (take i attribIds @ map elem_attr_id (drop i (take n p_attrs)),
                JObjectArray (Some ''java/lang/String'')
                  (take i strs @ map (\<lambda>a. utf_string (elem_text a)) (drop i (take n p_attrs))))"
proof (induction env n p_attrs i attribIds "JObjectArray (Some ''java/lang/String'') strs"
    arbitrary: strs rule: attr_rsp_loop.induct)
  case (1 env n p_attrs i attribIds)
  show ?case
  proof (cases "i < n")
    case False
    with "1.prems" have "i = n" by simp
    with "1.prems" show ?thesis
      by (subst attr_rsp_loop.simps) simp
  next
    case True
    define a where "a = p_attrs ! i"
    define rest where "rest = drop (Suc i) (take n p_attrs)"
    from True "1.prems" have il: "i < length p_attrs" by simp
    from True "1.prems" have d: "drop i (take n p_attrs) = a # rest"
      by (simp add: Cons_nth_drop_Suc [symmetric] a_def rest_def)
    from True il have "a \<in> set (take n p_attrs)"
      by (auto simp add: a_def in_set_conv_nth intro!: exI [of _ i])
    with "1.prems" have z: "0 \<in> set (elem_text a)" by simp
    then have cs: "c_string (elem_text a) = Some (takeWhile (\<lambda>b. b \<noteq> 0) (elem_text a))"
      by (simp add: c_string_def)
    from True "1.prems" have ok: "alloc_ok env (Alloc_str i)" by simp
    then have str: "NewStringUTF env (Alloc_str i) (the (c_string (elem_text a))) = utf_string (elem_text a)"
      by (simp add: NewStringUTF_def cs utf_string_def)
    define ids' where "ids' = SetIntArrayRegion attribIds i 1 [elem_attr_id a]"
    define strs' where "strs' = strs[i := utf_string (elem_text a)]"
    have sa: "SetObjectArrayElement (JObjectArray (Some ''java/lang/String'') strs) i (utf_string (elem_text a))
        = JObjectArray (Some ''java/lang/String'') strs'"
      using True "1.prems" by (simp add: utf_string_def strs'_def)
    have c1: "i < n" by (rule True)
    have c2: "i < length p_attrs \<and> c_string (elem_text (p_attrs ! i)) \<noteq> None"
      using il cs by (simp add: a_def)
    have c3: "NewStringUTF env (Alloc_str i) (the (c_string (elem_text (p_attrs ! i)))) \<noteq> JNull"
      using str by (simp add: a_def utf_string_def)
    have li: "length ids' = n" using "1.prems" by (simp add: ids'_def length_SetIntArrayRegion)
    have ls: "length strs' = n" using "1.prems" by (simp add: strs'_def)
    have ti: "take (Suc i) ids' = take i attribIds @ [elem_attr_id a]"
      using take_SetIntArrayRegion [of i 1 attribIds "[elem_attr_id a]"] True "1.prems"
      by (simp add: ids'_def)
    have ts: "take (Suc i) strs' = take i strs @ [utf_string (elem_text a)]"
      unfolding strs'_def using True "1.prems" by (intro take_Suc_update) simp
    have ih: "attr_rsp_loop env n p_attrs (Suc i) ids' (JObjectArray (Some ''java/lang/String'') strs') =
        Completed (take (Suc i) ids' @ map elem_attr_id rest,
                   JObjectArray (Some ''java/lang/String'')
                     (take (Suc i) strs' @ map (\<lambda>a. utf_string (elem_text a)) rest))"
      unfolding rest_def ids'_def a_def
      using "1.prems" True li ls sa str
      by (intro "1.hyps" [OF c1 c2 c3]) (simp_all add: a_def ids'_def)
    have step: "attr_rsp_loop env n p_attrs i attribIds (JObjectArray (Some ''java/lang/String'') strs) =
        attr_rsp_loop env n p_attrs (Suc i) ids' (JObjectArray (Some ''java/lang/String'') strs')"
      apply (subst attr_rsp_loop.simps)
      using c1 c2 c3 str sa by (simp add: a_def ids'_def)
    from step ih ti ts d show ?thesis by simp
  qed
qed


lemma attr_rsp_loop_early:
  "n \<le> length p_attrs \<Longrightarrow> i \<le> n \<Longrightarrow>
   \<forall>a \<in> set (take n p_attrs). 0 \<in> set (elem_text a) \<Longrightarrow>
   \<exists>j. i \<le> j \<and> j < n \<and> \<not> alloc_ok env (Alloc_str j) \<Longrightarrow>
   attr_rsp_loop env n p_attrs i attribIds stringArray = EarlyReturn [ALOGE ''Unable to get str'']"
proof (induction env n p_attrs i attribIds stringArray rule: attr_rsp_loop.induct)
  case (1 env n p_attrs i attribIds stringArray)
  from "1.prems"(4) obtain j where j: "i \<le> j" "j < n" "\<not> alloc_ok env (Alloc_str j)" by blast
  then have c1: "i < n" by simp
  with "1.prems" have il: "i < length p_attrs" by simp
  with c1 have "p_attrs ! i \<in> set (take n p_attrs)"
    by (auto simp add: in_set_conv_nth intro!: exI [of _ i])
  with "1.prems" have "0 \<in> set (elem_text (p_attrs ! i))" by simp
  then have cs: "c_string (elem_text (p_attrs ! i)) \<noteq> None" by (simp add: c_string_def)
  with il have c2: "i < length p_attrs \<and> c_string (elem_text (p_attrs ! i)) \<noteq> None" by simp
  show ?case
  proof (cases "alloc_ok env (Alloc_str i)")
    case False
    then show ?thesis
      apply (subst attr_rsp_loop.simps)
      using c1 c2 by (simp add: NewStringUTF_def)
  next
    case True
    then have c3: "NewStringUTF env (Alloc_str i) (the (c_string (elem_text (p_attrs ! i)))) \<noteq> JNull"
      by (simp add: NewStringUTF_def)
    from True j have "i \<noteq> j" by auto
    with j have "\<exists>j. Suc i \<le> j \<and> j < n \<and> \<not> alloc_ok env (Alloc_str j)"
      by (intro exI [of _ j]) simp
    with "1.prems" c1 have "attr_rsp_loop env n p_attrs (Suc i)
        (SetIntArrayRegion attribIds i 1 [elem_attr_id (p_attrs ! i)])
        (SetObjectArrayElement stringArray i
           (NewStringUTF env (Alloc_str i) (the (c_string (elem_text (p_attrs ! i))))))
        = EarlyReturn [ALOGE ''Unable to get str'']"
      by (intro "1.IH" [OF c1 c2 c3]) simp_all
    then show ?thesis
      apply (subst attr_rsp_loop.simps)
      using c1 c2 c3 by simp
  qed
qed

text \<open>
  Claim C4. Let \<^verbatim>\<open>p_attrs\<close> have at least \<^verbatim>\<open>num_attr\<close> entries, each with a
  NUL-terminated \<^verbatim>\<open>text\<close>. When the environment is valid and every allocation succeeds
  (the address array, the int array, the \<^verbatim>\<open>String\<close> class and array, each string),
  \<^verbatim>\<open>btavrcp_attr_rsp_callback\<close> makes exactly one Java call, of the method it was given,
  with the address bytes, \<^verbatim>\<open>num_attr\<close> (the same eight bits, as a \<^verbatim>\<open>jbyte\<close>), an int
  array of length \<^verbatim>\<open>num_attr\<close> whose element \<open>i\<close> is \<^verbatim>\<open>p_attrs[i].attr_id\<close> and a
  \<^verbatim>\<open>String\<close> array of length \<^verbatim>\<open>num_attr\<close> whose element \<open>i\<close> is the string built
  from \<^verbatim>\<open>p_attrs[i].text\<close>; otherwise it makes no Java call. The track-changed,
  get-element-attributes and get-item-attributes callbacks are this function with the
  methods \<^verbatim>\<open>onTrackChanged\<close>, \<^verbatim>\<open>onElementAttributeUpdate\<close> and
  \<^verbatim>\<open>onItemAttributeUpdate\<close>.
\<close>

theorem attr_rsp_arrays:
  assumes "length bd_addr = sizeof_RawAddress"
    and "unat num_attr \<le> length p_attrs"
    and "\<forall>a \<in> set (take (unat num_attr) p_attrs). 0 \<in> set (elem_text a)"
  shows
   "java_calls (snd (btavrcp_attr_rsp_callback env bd_addr num_attr p_attrs method)) =
      (if valid env \<and> alloc_ok env Alloc_addr \<and> alloc_ok env Alloc_attribIds \<and>
          alloc_ok env (Find_class ''java/lang/String'') \<and> alloc_ok env Alloc_stringArray \<and>
          (\<forall>i < unat num_attr. alloc_ok env (Alloc_str i))
       then [(method,
              [JByteArray bd_addr, JByte num_attr,
               JIntArray (map elem_attr_id (take (unat num_attr) p_attrs)),
               JObjectArray (Some ''java/lang/String'')
                 (map (\<lambda>a. utf_string (elem_text a)) (take (unat num_attr) p_attrs))])]
       else []) \<and>
    length (map elem_attr_id (take (unat num_attr) p_attrs)) = unat num_attr \<and>
    length (map (\<lambda>a. utf_string (elem_text a)) (take (unat num_attr) p_attrs)) = unat num_attr \<and>
    (\<forall>i < unat num_attr.
       map elem_attr_id (take (unat num_attr) p_attrs) ! i = elem_attr_id (p_attrs ! i) \<and>
       map (\<lambda>a. utf_string (elem_text a)) (take (unat num_attr) p_attrs) ! i
         = utf_string (elem_text (p_attrs ! i))) \<and>
    btavrcp_track_changed_callback env bd_addr num_attr p_attrs =
      btavrcp_attr_rsp_callback env bd_addr num_attr p_attrs ''onTrackChanged'' \<and>
    btavrcp_get_elem_attr_rsp_callback env bd_addr num_attr p_attrs =
      btavrcp_attr_rsp_callback env bd_addr num_attr p_attrs ''onElementAttributeUpdate'' \<and>
    btavrcp_get_item_attr_rsp_callback env bd_addr num_attr p_attrs =
      btavrcp_attr_rsp_callback env bd_addr num_attr p_attrs ''onItemAttributeUpdate''"
proof -
  define n where "n = unat num_attr"
  have addr: "SetByteArrayRegion (NewByteArray sizeof_RawAddress) 0 sizeof_RawAddress bd_addr = bd_addr"
    using assms(1) by (rule set_whole_region)
  have calls: "java_calls (snd (btavrcp_attr_rsp_callback env bd_addr num_attr p_attrs method)) =
      (if valid env \<and> alloc_ok env Alloc_addr \<and> alloc_ok env Alloc_attribIds \<and>
          alloc_ok env (Find_class ''java/lang/String'') \<and> alloc_ok env Alloc_stringArray \<and>
          (\<forall>i < n. alloc_ok env (Alloc_str i))
       then [(method,
              [JByteArray bd_addr, JByte num_attr,
               JIntArray (map elem_attr_id (take n p_attrs)),
               JObjectArray (Some ''java/lang/String'')
                 (map (\<lambda>a. utf_string (elem_text a)) (take n p_attrs))])]
       else [])"
  proof (cases "\<forall>i < n. alloc_ok env (Alloc_str i)")
    case True
    then have "attr_rsp_loop env n p_attrs 0 (NewIntArray n)
        (JObjectArray (Some ''java/lang/String'') (replicate n JNull)) =
        Completed (map elem_attr_id (take n p_attrs),
                   JObjectArray (Some ''java/lang/String'')
                     (map (\<lambda>a. utf_string (elem_text a)) (take n p_attrs)))"
      using attr_rsp_loop_completed [of n p_attrs 0 env "NewIntArray n" "replicate n JNull"] assms(2,3)
      by (simp add: n_def NewIntArray_def)
    with True show ?thesis
      by (simp add: btavrcp_attr_rsp_callback_def n_def [symmetric] addr FindClass_def
            NewObjectArray_def Let_def)
  next
    case False
    then have "\<exists>j. 0 \<le> j \<and> j < n \<and> \<not> alloc_ok env (Alloc_str j)" by simp
    then have "attr_rsp_loop env n p_attrs 0 (NewIntArray n)
        (JObjectArray (Some ''java/lang/String'') (replicate n JNull)) =
        EarlyReturn [ALOGE ''Unable to get str'']"
      using assms(2,3) by (intro attr_rsp_loop_early) (simp_all add: n_def)
    with False show ?thesis
      by (simp add: btavrcp_attr_rsp_callback_def n_def [symmetric] addr FindClass_def
            NewObjectArray_def Let_def)
  qed
  have nth: "map elem_attr_id (take n p_attrs) ! i = elem_attr_id (p_attrs ! i) \<and>
       map (\<lambda>a. utf_string (elem_text a)) (take n p_attrs) ! i = utf_string (elem_text (p_attrs ! i))"
    if "i < n" for i
    using that assms(2) by (simp add: n_def)
  from calls nth assms(2) show ?thesis
    by (simp add: n_def btavrcp_track_changed_callback_def btavrcp_get_elem_attr_rsp_callback_def
          btavrcp_get_item_attr_rsp_callback_def method_handletrackchanged_def
          method_handleGetElementAttrResp_def method_handleGetItemAttrResp_def)
qed

text \<open>
  Two attributes: the text "Song" followed by a NUL and a stale byte, with a small id, and
  an empty text with an id above \<open>2^31\<close>.
\<close>

definition example_element_attrs :: "btrc_element_attr_val_t list" where
  "example_element_attrs =
     [\<lparr> elem_attr_id = 1, elem_text = [0x53, 0x6F, 0x6E, 0x67, 0, 0x78] \<rparr>,
      \<lparr> elem_attr_id = 0x80000002, elem_text = [0, 0x41] \<rparr>]"

theorem attr_rsp_arrays_witness:
  "java_calls (snd (btavrcp_track_changed_callback jni_all_ok [1, 2, 3, 4, 5, 6] 2 example_element_attrs)) =
     [(''onTrackChanged'',
       [JByteArray [1, 2, 3, 4, 5, 6], JByte 2, JIntArray [1, 0x80000002],
        JObjectArray (Some ''java/lang/String'') [JString [0x53, 0x6F, 0x6E, 0x67], JString []]])]"
proof -
  have h1: "length [1, 2, 3, 4, 5, 6 :: uint8_t] = sizeof_RawAddress"
    by (simp add: sizeof_RawAddress_def)
  have h2: "unat (2 :: uint8_t) \<le> length example_element_attrs"
    by (simp add: example_element_attrs_def)
  have h3: "\<forall>a \<in> set (take (unat (2 :: uint8_t)) example_element_attrs). 0 \<in> set (elem_text a)"
    by (simp add: example_element_attrs_def)
  have v: "valid jni_all_ok \<and> (\<forall>site. alloc_ok jni_all_ok site)"
    by (simp add: jni_all_ok_def)
  have m: "map elem_attr_id (take 2 example_element_attrs) = [1, 0x80000002] \<and>
      map (\<lambda>a. utf_string (elem_text a)) (take 2 example_element_attrs)
        = [JString [0x53, 0x6F, 0x6E, 0x67], JString []]"
    by (simp add: example_element_attrs_def utf_string_def)
  from attr_rsp_arrays [OF h1 h2 h3, of jni_all_ok "''onTrackChanged''"] v m
  show ?thesis by simp
qed

section \<open>AVRCP controller: \<^verbatim>\<open>btavrcp_get_folder_items_callback\<close>\<close>

text \<open>
  \<^verbatim>\<open>btrc_folder_items_t\<close> is an \<^verbatim>\<open>item_type\<close> tag and a union of three structures; it
  is a datatype with one constructor per tag value the callback switches on and one for
  every other tag value. The fields are those the callback reads, named after the union
  member they belong to (\<^verbatim>\<open>item->media.uid\<close> is \<open>media_uid\<close>).
\<close>

record btrc_item_player_t =
  player_id :: uint16_t
  player_major_type :: uint8_t
  player_play_status :: uint8_t
  player_features :: "uint8_t list"
  player_name :: "uint8_t list"

record btrc_item_folder_t =
  folder_uid :: "uint8_t list"
  folder_type :: uint8_t
  folder_name :: "uint8_t list"
  folder_playable :: uint8_t

record btrc_item_media_t =
  media_uid :: "uint8_t list"
  media_type :: uint8_t
  media_name :: "uint8_t list"
  media_num_attrs :: nat
  media_p_attrs :: "btrc_element_attr_val_t list"

datatype btrc_folder_items_t =
    BTRC_ITEM_PLAYER btrc_item_player_t
  | BTRC_ITEM_FOLDER btrc_item_folder_t
  | BTRC_ITEM_MEDIA btrc_item_media_t
  | BTRC_ITEM_unknown uint8_t

fun is_player_item :: "btrc_folder_items_t \<Rightarrow> bool" where
  "is_player_item (BTRC_ITEM_PLAYER p) = True"
| "is_player_item item = False"

text \<open>The classes of the two Java constructors' results, as \<^verbatim>\<open>initNative\<close> looks them up.\<close>

definition MediaItem_class :: jclass where
  "MediaItem_class = ''android/media/browse/MediaBrowser$MediaItem''"

definition AvrcpPlayer_class :: jclass where
  "AvrcpPlayer_class = ''com/android/bluetooth/avrcpcontroller/AvrcpPlayer''"

text \<open>
  A byte array member of fixed size copied whole into a fresh Java array of that size
  (\<^verbatim>\<open>BTRC_UID_SIZE\<close>, \<^verbatim>\<open>BTRC_FEATURE_BIT_MASK_SIZE\<close>).
\<close>

definition copy_member :: "uint8_t list \<Rightarrow> jbyte list" where
  "copy_member member =
     SetByteArrayRegion (NewByteArray (length member)) 0 (length member) member"

text \<open>
  The attribute loop of a media item. The string built from \<^verbatim>\<open>p_attrs[j].text\<close> is
  stored without a test: the test written after it looks at \<^verbatim>\<open>uidByteArray\<close>, which
  is known to be non-null there. \<open>None\<close> is a read past the end of an array.
\<close>

function media_attrs_loop ::
  "jni_env \<Rightarrow> nat \<Rightarrow> nat \<Rightarrow> btrc_element_attr_val_t list \<Rightarrow> nat \<Rightarrow> jint list \<Rightarrow> jvalue \<Rightarrow>
   (jint list \<times> jvalue) option" where
  "media_attrs_loop env i num_attrs p_attrs j attrIdArray attrValArray =
     (if j < num_attrs
      then (if j < length p_attrs \<and> c_string (elem_text (p_attrs ! j)) \<noteq> None
            then media_attrs_loop env i num_attrs p_attrs (Suc j)
                   (SetIntArrayRegion attrIdArray j 1 [elem_attr_id (p_attrs ! j)])
                   (SetObjectArrayElement attrValArray j
                      (NewStringUTF env (Alloc_attrValStr i j)
                         (the (c_string (elem_text (p_attrs ! j))))))
            else None)
      else Some (attrIdArray, attrValArray))"
  by pat_completeness auto
termination
  by (relation "measure (\<lambda>(env, i, num_attrs, p_attrs, j, attrIdArray, attrValArray). num_attrs - j)")
     auto

text \<open>
  One iteration of the item loop, without the store into \<open>itemArray\<close>: the events of the
  iteration and the object to store (none for an unknown type, which is only logged).
\<close>

fun translate_item :: "jni_env \<Rightarrow> nat \<Rightarrow> btrc_folder_items_t \<Rightarrow> (event list \<times> jvalue option) flow" where
  "translate_item env i (BTRC_ITEM_MEDIA media) =
     (case c_string (media_name media) of
        None \<Rightarrow> Crashed OutOfBounds
      | Some name \<Rightarrow>
          if NewStringUTF env (Alloc_name i) name = JNull
          then EarlyReturn [ALOGE ''%s can't allocate media name string!'']
          else if \<not> alloc_ok env (Alloc_uidByteArray i)
          then EarlyReturn [ALOGE ''%s can't allocate uid array!'']
          else if \<not> alloc_ok env (Alloc_attrIdArray i)
          then EarlyReturn [ALOGE ''%s can't allocate attr id array!'']
          else
            (case FindClass env ''java/lang/String'' of
               None \<Rightarrow> Crashed JniAbort
             | Some strclazz \<Rightarrow>
                 if NewObjectArray env (Alloc_attrValArray i) (media_num_attrs media) strclazz = JNull
                 then EarlyReturn [ALOGE ''%s can't allocate attr val array!'']
                 else
                   (case media_attrs_loop env i (media_num_attrs media) (media_p_attrs media) 0
                           (NewIntArray (media_num_attrs media))
                           (NewObjectArray env (Alloc_attrValArray i) (media_num_attrs media) strclazz) of
                      None \<Rightarrow> Crashed OutOfBounds
                    | Some (attrIdArray, attrValArray) \<Rightarrow>
                        let call = Java ''createFromNativeMediaItem''
                              [JByteArray (copy_member (media_uid media)), JInt (ucast (media_type media)),
                               NewStringUTF env (Alloc_name i) name, JIntArray attrIdArray, attrValArray]
                        in (case ctor_result env i of
                              None \<Rightarrow> EarlyReturn
                                [call, ALOGE ''%s failed to creae MediaItem for type ITEM_MEDIA'']
                            | Some mediaObj \<Rightarrow>
                                Completed ([call], Some (JObject MediaItem_class mediaObj))))))"
| "translate_item env i (BTRC_ITEM_FOLDER folder) =
     (case c_string (folder_name folder) of
        None \<Rightarrow> Crashed OutOfBounds
      | Some name \<Rightarrow>
          if NewStringUTF env (Alloc_name i) name = JNull
          then EarlyReturn [ALOGE ''%s can't allocate folder name string!'']
          else if \<not> alloc_ok env (Alloc_uidByteArray i)
          then EarlyReturn [ALOGE ''%s can't allocate uid array!'']
          else
            let call = Java ''createFromNativeFolderItem''
                  [JByteArray (copy_member (folder_uid folder)), JInt (ucast (folder_type folder)),
                   NewStringUTF env (Alloc_name i) name, JInt (ucast (folder_playable folder))]
            in (case ctor_result env i of
                  None \<Rightarrow> EarlyReturn
                    [call, ALOGE ''%s failed to create MediaItem for type ITEM_FOLDER'']
                | Some folderObj \<Rightarrow>
                    Completed ([call], Some (JObject MediaItem_class folderObj))))"
| "translate_item env i (BTRC_ITEM_PLAYER player) =
     (if \<not> alloc_ok env (Alloc_featureBitArray i)
      then EarlyReturn [ALOGE ''%s failed to allocate featureBitArray'']
      else
        (case c_string (player_name player) of
           None \<Rightarrow> Crashed OutOfBounds
         | Some name \<Rightarrow>
             if NewStringUTF env (Alloc_name i) name = JNull
             then EarlyReturn [ALOGE ''%s can't allocate player name string!'']
             else
               let call = Java ''createFromNativePlayerItem''
                     [JInt (ucast (player_id player)), NewStringUTF env (Alloc_name i) name,
                      JByteArray (copy_member (player_features player)),
                      JInt (ucast (player_play_status player)),
                      JInt (ucast (player_major_type player))]
               in (case ctor_result env i of
                     None \<Rightarrow> EarlyReturn
                       [call, ALOGE ''%s failed to create AvrcpPlayer from ITEM_PLAYER'']
                   | Some playerObj \<Rightarrow>
                       Completed ([call], Some (JObject AvrcpPlayer_class playerObj)))))"
| "translate_item env i (BTRC_ITEM_unknown item_type) =
     Completed ([ALOGE ''%s cannot understand type %d''], None)"

text \<open>
  The item loop. \<open>isPlayerListing\<close> is set again by every player item
  (\<^verbatim>\<open>isPlayerListing = true;\<close> opens \<^verbatim>\<open>case BTRC_ITEM_PLAYER\<close>).
\<close>

function folder_items_loop ::
  "jni_env \<Rightarrow> nat \<Rightarrow> btrc_folder_items_t list \<Rightarrow> nat \<Rightarrow> bool \<Rightarrow> jvalue \<Rightarrow> event list \<Rightarrow>
   (bool \<times> jvalue \<times> event list) flow" where
  "folder_items_loop env count folder_items i isPlayerListing itemArray trace =
     (if i < count
      then (if i < length folder_items
            then (case translate_item env i (folder_items ! i) of
                    Crashed c \<Rightarrow> Crashed c
                  | EarlyReturn tr \<Rightarrow> EarlyReturn (trace @ tr)
                  | Completed (tr, obj) \<Rightarrow>
                      folder_items_loop env count folder_items (Suc i)
                        (isPlayerListing \<or> is_player_item (folder_items ! i))
                        (case obj of None \<Rightarrow> itemArray
                         | Some v \<Rightarrow> SetObjectArrayElement itemArray i v)
                        (trace @ tr))
            else Crashed OutOfBounds)
      else Completed (isPlayerListing, itemArray, trace))"
  by pat_completeness auto
termination
  by (relation "measure (\<lambda>(env, count, folder_items, i, isPlayerListing, itemArray, trace). count - i)")
     auto

definition btavrcp_get_folder_items_callback ::
  "jni_env \<Rightarrow> RawAddress \<Rightarrow> jint \<Rightarrow> btrc_folder_items_t list \<Rightarrow> uint8_t \<Rightarrow> module_state \<Rightarrow>
   callback_result" where
  "btavrcp_get_folder_items_callback env bd_addr status folder_items count s =
     (if \<not> valid env then (Returned RVoid, [])
      else if 0 < unat count \<and> folder_items = [] then (OutOfBounds, [])
      else
        let isPlayerListing = (0 < unat count \<and> is_player_item (folder_items ! 0))
        in case (if isPlayerListing then class_AvrcpPlayer s else class_MediaBrowser_MediaItem s) of
             None \<Rightarrow> (JniAbort, [])
           | Some cls \<Rightarrow>
               if NewObjectArray env Alloc_itemArray (unat count) cls = JNull
               then (Returned RVoid, [ALOGE ''%s itemArray allocation failed.''])
               else
                 (case folder_items_loop env (unat count) folder_items 0 isPlayerListing
                         (NewObjectArray env Alloc_itemArray (unat count) cls) [] of
                    Crashed c \<Rightarrow> (c, [])
                  | EarlyReturn tr \<Rightarrow> (Returned RVoid, tr)
                  | Completed (isPlayerListing', itemArray, tr) \<Rightarrow>
                      (Returned RVoid,
                       tr @ [if isPlayerListing'
                             then Java ''handleGetPlayerItemsRsp'' [itemArray]
                             else Java ''handleGetFolderItemsRsp'' [JInt status, itemArray]])))"

subsection \<open>Which handler receives the listing\<close>

declare media_attrs_loop.simps [simp del] folder_items_loop.simps [simp del]












text \<open>
  A listing is exclusive when its items are all player items or none is. The class of
  \<open>itemArray\<close> is chosen from the first item before the loop.
\<close>

definition exclusive_listing :: "btrc_folder_items_t list \<Rightarrow> bool" where
  "exclusive_listing items \<longleftrightarrow>
     list_all is_player_item items \<or> list_all (\<lambda>item. \<not> is_player_item item) items"








text \<open>Three items; a folder listing, and a listing that is not exclusive.\<close>

definition example_folder_item :: btrc_folder_items_t where
  "example_folder_item = BTRC_ITEM_FOLDER
     \<lparr> folder_uid = [0, 0, 0, 0, 0, 0, 0, 1], folder_type = 2, folder_name = [0x41, 0],
       folder_playable = 1 \<rparr>"

definition example_player_item :: btrc_folder_items_t where
  "example_player_item = BTRC_ITEM_PLAYER
     \<lparr> player_id = 3, player_major_type = 1, player_play_status = 0,
       player_features = [0xFF, 0], player_name = [0x50, 0] \<rparr>"

definition example_media_item :: btrc_folder_items_t where
  "example_media_item = BTRC_ITEM_MEDIA
     \<lparr> media_uid = [0, 0, 0, 0, 0, 0, 0, 2], media_type = 0, media_name = [0x4D, 0],
       media_num_attrs = 1,
       media_p_attrs = [\<lparr> elem_attr_id = 1, elem_text = [0x54, 0] \<rparr>] \<rparr>"


definition mixed_listing :: "btrc_folder_items_t list" where
  "mixed_listing = [example_folder_item, example_player_item]"


text \<open>
  The hypothesis of exclusiveness is needed. A folder item followed by a player item is not
  an exclusive listing; there the flag set again in \<^verbatim>\<open>case BTRC_ITEM_PLAYER\<close> selects
  \<^verbatim>\<open>handleGetPlayerItemsRsp\<close> although the array was allocated as a \<^verbatim>\<open>MediaItem\<close>
  array for the folder item that comes first, and the player's slot stays null.
\<close>

lemma mixed_listing_player_handler:
  "\<not> exclusive_listing mixed_listing \<and>
   btavrcp_get_folder_items_callback jni_all_ok [1, 2, 3, 4, 5, 6] 4 mixed_listing 2 ready_state =
     (Returned RVoid,
      [Java ''createFromNativeFolderItem''
         [JByteArray [0, 0, 0, 0, 0, 0, 0, 1], JInt 2, JString [0x41], JInt 1],
       Java ''createFromNativePlayerItem''
         [JInt 3, JString [0x50], JByteArray [0xFF, 0], JInt 0, JInt 1],
       Java ''handleGetPlayerItemsRsp''
         [JObjectArray (Some MediaItem_class) [JObject MediaItem_class 0, JNull]]])"
  by code_simp

section \<open>Binding results that are used without a null test\<close>

text \<open>
  Claim C2 says that a null result of a binding call always ends the function before any
  Java or HAL call receives it. Three places do not test the result. With the pattern pin
  failing, \<^verbatim>\<open>searchNative\<close> calls \<^verbatim>\<open>search_cmd\<close> with a null pattern (every other pin
  in the file is tested and throws). With the string of a media attribute failing to
  allocate, \<^verbatim>\<open>btavrcp_get_folder_items_callback\<close> stores the null in the value array and
  passes it to \<^verbatim>\<open>createFromNativeMediaItem\<close> (the test written there looks at
  \<^verbatim>\<open>uidByteArray\<close>; the same string is tested in \<^verbatim>\<open>btavrcp_attr_rsp_callback\<close>). With
  the link key string failing to allocate, \<^verbatim>\<open>get_link_key_callback\<close> calls
  \<^verbatim>\<open>onGetLinkKey\<close> with a null string.
\<close>

theorem unchecked_null_results:
  "hal_calls (trace_of (searchNative (jni_all_ok\<lparr> pin_ok := (\<lambda>site. site \<noteq> Pin_pattern) \<rparr>)
       hal_all_ok [1, 2, 3, 4, 5, 6] 106 3 [0x61, 0x62, 0x63] ready_state))
     = [HAL_search_cmd [1, 2, 3, 4, 5, 6] 106 3 None] \<and>
   java_calls (snd (btavrcp_get_folder_items_callback
       (jni_all_ok\<lparr> alloc_ok := (\<lambda>site. site \<noteq> Alloc_attrValStr 0 0) \<rparr>)
       [1, 2, 3, 4, 5, 6] 4 [example_media_item] 1 ready_state))
     = [(''createFromNativeMediaItem'',
         [JByteArray [0, 0, 0, 0, 0, 0, 0, 2], JInt 0, JString [0x4D], JIntArray [1],
          JObjectArray (Some ''java/lang/String'') [JNull]]),
        (''handleGetFolderItemsRsp'',
         [JInt 4, JObjectArray (Some MediaItem_class) [JObject MediaItem_class 0]])] \<and>
   java_calls (snd (get_link_key_callback (jni_all_ok\<lparr> alloc_ok := (\<lambda>site. site \<noteq> Alloc_linkkey) \<rparr>)
       (Some [1, 2, 3, 4, 5, 6]) True example_link_key 4))
     = [(''onGetLinkKey'', [JNull, JByteArray [1, 2, 3, 4, 5, 6], JBoolean True, JInt 4])]"
  by code_simp

end
